theory Spec2Isabelle
  imports Complex_Main
begin

section \<open>Data model (stexdoc.py)\<close>

text \<open>
  Character-offset spans are pairs of Python integers. File modification times are the
  numbers returned by \<^verbatim>\<open>Path.stat().st_mtime\<close>; they are only ever stored and compared,
  so they are modelled as reals.
\<close>

type_synonym span = "int \<times> int"

text \<open>
  The fields \<^verbatim>\<open>file\<close> and \<^verbatim>\<open>module_name\<close> of \<^verbatim>\<open>Dependency\<close> are called \<open>dep_file\<close> and
  \<open>dep_module_name\<close> here (both names are reserved words).
\<close>

record Dependency =
  archive :: string
  dep_file :: "string option"
  dep_module_name :: "string option"
  is_lib :: bool
  is_use :: bool
  target_no_tex :: bool
  valid_range :: "span option"
  intro_range :: "span option"

record Symbol =
  name :: string
  verbalizations :: "(string \<times> int \<times> int) list"
  decl_def :: "span option"

text \<open>
  \<^verbatim>\<open>ModuleInfo\<close> is recursive (a module owns its submodules), so it is a datatype with
  selectors; the selectors carry the prefix \<open>m_\<close> because \<^verbatim>\<open>DocInfo\<close> has fields of the
  same names.
\<close>

datatype ModuleInfo =
  ModuleInfo (m_name: string) (m_dependencies: "Dependency list")
    (m_symbols: "Symbol list") (m_modules: "ModuleInfo list")

record DocInfo =
  last_modified :: real
  dependencies :: "Dependency list"
  modules :: "ModuleInfo list"

subsection \<open>Generators of ModuleInfo and DocInfo\<close>

text \<open>
  A generator is modelled by the list of the values it yields, in order. The loop
  \<^verbatim>\<open>for module in self.modules: yield from module.dependencies\<close> is the recursion
  \<open>yield_module_dependencies\<close>.
\<close>

fun yield_module_dependencies :: "ModuleInfo list \<Rightarrow> Dependency list" where
  "yield_module_dependencies [] = []"
| "yield_module_dependencies (m # rest) =
     m_dependencies m @ yield_module_dependencies rest"

definition flattened_dependencies :: "ModuleInfo \<Rightarrow> Dependency list" where
  "flattened_dependencies self =
     m_dependencies self @ yield_module_dependencies (m_modules self)"

definition DocInfo_flattened_dependencies :: "DocInfo \<Rightarrow> Dependency list" where
  "DocInfo_flattened_dependencies self =
     dependencies self @ yield_module_dependencies (modules self)"

fun iter_modules :: "ModuleInfo \<Rightarrow> ModuleInfo list" where
  "iter_modules (ModuleInfo n d s ms) =
     ModuleInfo n d s ms # concat (map iter_modules ms)"

definition DocInfo_iter_modules :: "DocInfo \<Rightarrow> ModuleInfo list" where
  "DocInfo_iter_modules self = concat (map iter_modules (modules self))"

fun get_module_loop :: "ModuleInfo list \<Rightarrow> string \<Rightarrow> ModuleInfo option" where
  "get_module_loop [] n = None"
| "get_module_loop (m # rest) n =
     (if m_name m = n then Some m else get_module_loop rest n)"

definition get_module :: "DocInfo \<Rightarrow> string \<Rightarrow> ModuleInfo option" where
  "get_module self n = get_module_loop (DocInfo_iter_modules self) n"

text \<open>A module with its submodule list emptied: what remains when every deeper level is cut off.\<close>

definition without_submodules :: "ModuleInfo \<Rightarrow> ModuleInfo" where
  "without_submodules m = ModuleInfo (m_name m) (m_dependencies m) (m_symbols m) []"

section \<open>Python strings and paths\<close>

datatype error =
    TypeError | IndexError | AttributeError | ValueError | KeyError
  | RuntimeError | FileNotFoundError | AssertionError | UnexpectedNodeType

text \<open>\<^verbatim>\<open>s.split(c)\<close> for a one-character separator: never the empty list.\<close>

fun split_on :: "char \<Rightarrow> string \<Rightarrow> string list" where
  "split_on c [] = [[]]"
| "split_on c (x # xs) =
     (if x = c then [] # split_on c xs
      else (case split_on c xs of [] \<Rightarrow> [[x]] | w # ws \<Rightarrow> (x # w) # ws))"

text \<open>\<^verbatim>\<open>sep.join(xs)\<close>.\<close>

fun join :: "string \<Rightarrow> string list \<Rightarrow> string" where
  "join sep [] = []"
| "join sep [x] = x"
| "join sep (x # y # ys) = x @ sep @ join sep (y # ys)"

text \<open>
  A Python \<^verbatim>\<open>str\<close> is modelled by its UTF-8 encoding, one \<open>char\<close> per byte. Splitting,
  joining and searching for an ASCII character act on the bytes as they act on the
  characters. Where the code counts characters, the model counts encoded characters: a
  byte below 128 is a character by itself, a byte from 128 to 191 continues a character,
  and a higher byte starts a character of two, three or four bytes.
\<close>

definition is_continuation :: "char \<Rightarrow> bool" where
  "is_continuation c = (digit7 c \<and> \<not> digit6 c)"

definition char_len :: "char \<Rightarrow> nat" where
  "char_len c = (if \<not> digit7 c then 1 else if \<not> digit5 c then 2 else if \<not> digit4 c then 3 else 4)"

text \<open>\<^verbatim>\<open>s[1:]\<close> and \<^verbatim>\<open>s[:-1]\<close>: the string without its first, without its last character.\<close>

definition drop_first_char :: "string \<Rightarrow> string" where
  "drop_first_char s = (case s of [] \<Rightarrow> [] | c # cs \<Rightarrow> drop (char_len c - 1) cs)"

definition drop_last_char :: "string \<Rightarrow> string" where
  "drop_last_char s =
     (case dropWhile is_continuation (rev s) of [] \<Rightarrow> [] | c # cs \<Rightarrow> rev cs)"

text \<open>\<^verbatim>\<open>s[1:-1]\<close>: the string without its first and its last character.\<close>

definition strip_braces :: "string \<Rightarrow> string" where
  "strip_braces s = drop_first_char (drop_last_char s)"

text \<open>
  \<^verbatim>\<open>s.strip()\<close> removes the characters for which \<^verbatim>\<open>str.isspace\<close> holds from both ends.
  These are U+0009 to U+000D, U+001C to U+0020, U+0085, U+00A0, U+1680, U+2000 to U+200A,
  U+2028, U+2029, U+202F, U+205F and U+3000; the list holds their encodings.
\<close>

definition whitespace_encodings :: "nat list list" where
  "whitespace_encodings =
     [[9], [10], [11], [12], [13], [28], [29], [30], [31], [32], [194, 133], [194, 160],
      [225, 154, 128], [226, 128, 128], [226, 128, 129], [226, 128, 130], [226, 128, 131],
      [226, 128, 132], [226, 128, 133], [226, 128, 134], [226, 128, 135], [226, 128, 136],
      [226, 128, 137], [226, 128, 138], [226, 128, 168], [226, 128, 169], [226, 128, 175],
      [226, 129, 159], [227, 128, 128]]"

text \<open>Removing from the front of a string every leading piece that is one of \<open>ws\<close>.\<close>

fun strip_leading :: "nat list list \<Rightarrow> string \<Rightarrow> string" where
  "strip_leading ws [] = []"
| "strip_leading ws (c # cs) =
     (case find (\<lambda>w. w \<noteq> [] \<and> take (length w) (map of_char (c # cs)) = w) ws of
        None \<Rightarrow> c # cs
      | Some w \<Rightarrow> strip_leading ws (drop (length w - 1) cs))"

definition strip :: "string \<Rightarrow> string" where
  "strip s =
     rev (strip_leading (map rev whitespace_encodings)
            (rev (strip_leading whitespace_encodings s)))"

text \<open>
  \<^verbatim>\<open>s[0].upper() + s[1:]\<close> for a non-empty string. A letter of ASCII is mapped by
  \<open>upper_char\<close>. For any other first character the result of \<^verbatim>\<open>upper()\<close>, which may be
  longer than one character, is read from the Unicode tables of the running Python; they are
  a parameter: \<open>table\<close> maps the encoding of a character to the encoding of its upper case.
\<close>

definition upper_char :: "char \<Rightarrow> char" where
  "upper_char c =
     (let n = of_char c :: nat in if 97 \<le> n \<and> n \<le> 122 then char_of (n - 32) else c)"

definition upper_first :: "(string \<Rightarrow> string) \<Rightarrow> string \<Rightarrow> string" where
  "upper_first table s =
     (case s of
        [] \<Rightarrow> []
      | c # cs \<Rightarrow>
          if \<not> digit7 c then upper_char c # cs
          else table (take (char_len c) s) @ drop (char_len c) s)"

text \<open>\<^verbatim>\<open>s.partition(c)\<close>, first and third component.\<close>

definition partition_on :: "char \<Rightarrow> string \<Rightarrow> string \<times> string" where
  "partition_on c s = (takeWhile (\<lambda>x. x \<noteq> c) s, drop 1 (dropWhile (\<lambda>x. x \<noteq> c) s))"

text \<open>
  An absolute \<^verbatim>\<open>pathlib.Path\<close> is the list of its components below the root. Joining a
  string to a path (\<^verbatim>\<open>p / s\<close>) parses the string as pathlib does: empty components and
  \<^verbatim>\<open>.\<close> are dropped, and an absolute right operand replaces the left one.
\<close>

type_synonym path = "string list"

definition path_parts :: "string \<Rightarrow> string list" where
  "path_parts s = filter (\<lambda>c. c \<noteq> [] \<and> c \<noteq> ''.'') (split_on CHR ''/'' s)"

definition joinpath :: "path \<Rightarrow> string \<Rightarrow> path" where
  "joinpath p s = (if s \<noteq> [] \<and> hd s = CHR ''/'' then path_parts s else p @ path_parts s)"

definition path_name :: "path \<Rightarrow> string" where
  "path_name p = (if p = [] then [] else last p)"

text \<open>
  \<^verbatim>\<open>p.with_name(n)\<close>. pathlib raises \<^verbatim>\<open>ValueError\<close> when the path has no name and when
  the new name is not a valid one. Before Python 3.12 a name is valid when it is not empty,
  neither starts nor ends with a separator and has exactly one component (so \<^verbatim>\<open>./x\<close> is
  accepted and kept as it is); from Python 3.12 on it is valid when it is not empty, holds
  no separator and is not \<^verbatim>\<open>.\<close>. The first argument says which pathlib is running.
\<close>

definition valid_name :: "bool \<Rightarrow> string \<Rightarrow> bool" where
  "valid_name before_312 n =
     (if before_312
      then n \<noteq> [] \<and> hd n \<noteq> CHR ''/'' \<and> last n \<noteq> CHR ''/'' \<and> length (path_parts n) = 1
      else n \<noteq> [] \<and> CHR ''/'' \<notin> set n \<and> n \<noteq> ''.'')"

definition with_name :: "bool \<Rightarrow> path \<Rightarrow> string \<Rightarrow> error + path" where
  "with_name before_312 p n =
     (if p = [] then Inl ValueError
      else if valid_name before_312 n then Inr (butlast p @ [n])
      else Inl ValueError)"

definition as_posix :: "path \<Rightarrow> string" where
  "as_posix p = (if p = [] then ''/'' else concat (map (\<lambda>c. CHR ''/'' # c) p))"

text \<open>\<^verbatim>\<open>p.relative_to(base).as_posix()\<close>: \<^verbatim>\<open>ValueError\<close> when \<open>base\<close> is not a prefix.\<close>

definition relative_to :: "path \<Rightarrow> path \<Rightarrow> error + string" where
  "relative_to p base =
     (if take (length base) p = base
      then Inr (if drop (length base) p = [] then ''.'' else join ''/'' (drop (length base) p))
      else Inl ValueError)"

section \<open>The parsed tree and the world outside\<close>

text \<open>
  The parser (pylatexenc) and the module \<^verbatim>\<open>macro_arg_utils\<close> are not part of the analysed
  sources. A node's argument descriptor \<^verbatim>\<open>nodeargd\<close> is therefore given by what the code
  reads from it: the results of \<^verbatim>\<open>get_first_macro_arg_opt\<close>,
  \<^verbatim>\<open>OptArgKeyVals.from_first_macro_arg\<close> (a key/value list read by \<^verbatim>\<open>get_val\<close>) and
  \<^verbatim>\<open>get_first_main_arg\<close>, and the list \<^verbatim>\<open>argnlist\<close>, whose entries are \<^verbatim>\<open>None\<close> or an
  argument node with its \<^verbatim>\<open>latex_verbatim()\<close> text and the key/value list that
  \<^verbatim>\<open>OptArgKeyVals(arg.nodelist)\<close> reads from it.
\<close>

type_synonym keyvals = "(string \<times> string) list"

definition get_val :: "keyvals \<Rightarrow> string \<Rightarrow> string option" where
  "get_val params k = map_of params k"

record ArgNode =
  latex_verbatim :: string
  arg_keyvals :: keyvals

record NodeArgs =
  first_macro_arg_opt :: "string option"
  first_macro_arg_keyvals :: "keyvals option"
  first_main_arg :: "string option"
  argnlist :: "ArgNode option list"

text \<open>
  The node kinds the walk distinguishes. Group, environment and macro nodes carry \<^verbatim>\<open>pos\<close>
  and \<^verbatim>\<open>len\<close>; \<open>LatexOtherNode\<close> stands for every node type the walk does not know.
\<close>

datatype LatexNode =
    LatexCommentNode
  | LatexCharsNode
  | LatexMathNode
  | LatexSpecialsNode
  | LatexGroupNode int int "LatexNode list"
  | LatexEnvironmentNode string NodeArgs int int "LatexNode list"
  | LatexMacroNode string NodeArgs int int
  | LatexOtherNode

text \<open>
  What the code asks of the file system and of the process environment, as the answers
  it gets: the hub root (\<^verbatim>\<open>get_mathhub_path()\<close>), the manifest read at an archive root
  (\<open>None\<close>: \<^verbatim>\<open>FileNotFoundError\<close>), \<^verbatim>\<open>is_file\<close>, \<^verbatim>\<open>exists\<close>, \<^verbatim>\<open>glob\<close>,
  \<^verbatim>\<open>stat().st_mtime\<close> (\<open>None\<close>: the file is gone), the parsed content of a file
  (node list and length, \<open>None\<close>: the file cannot be opened), the \<^verbatim>\<open>.tex\<close> files below
  an archive's \<^verbatim>\<open>source\<close> and \<^verbatim>\<open>lib\<close> (\<^verbatim>\<open>_relevant_file_iterate\<close>), and the repository
  roots below the hub root (\<^verbatim>\<open>_get_mathhub_repos\<close>). Two facts about the running Python
  belong here too: the upper-case table of its Unicode database, and whether its pathlib is
  older than that of Python 3.12.
\<close>

record Env =
  mathhub_path :: path
  manifest_file :: "path \<Rightarrow> keyvals option"
  is_file :: "path \<Rightarrow> bool"
  path_exists :: "path \<Rightarrow> bool"
  glob :: "path \<Rightarrow> string \<Rightarrow> path list"
  st_mtime :: "path \<Rightarrow> real option"
  latex_nodes :: "path \<Rightarrow> (LatexNode list \<times> int) option"
  relevant_file_iterate :: "path \<Rightarrow> path list"
  mathhub_repos :: "path list"
  unicode_upper :: "string \<Rightarrow> string"
  pathlib_before_312 :: bool

section \<open>Documents and repositories (mathhub.py)\<close>

text \<open>
  A document refers to its archive; the archive owns its documents. The model keeps the
  ownership (a repository holds its documents) and passes the archive to the methods of
  \<^verbatim>\<open>STeXDocument\<close> that read \<^verbatim>\<open>self.archive\<close>.
\<close>

record STeXDocument =
  doc_path :: path
  doc_info :: "DocInfo option"

text \<open>
  \<open>archive_name_cache\<close> is the entry of \<^verbatim>\<open>functools.cache\<close> for \<^verbatim>\<open>get_archive_name\<close> on this
  object. A dictionary is an association list in insertion order with distinct keys.
\<close>

record Repository =
  repo_path :: path
  manifest_cache :: "keyvals option"
  stex_documents :: "(string \<times> STeXDocument) list option"
  archive_name_cache :: "string option"

definition new_Repository :: "path \<Rightarrow> Repository" where
  "new_Repository p =
     \<lparr>repo_path = p, manifest_cache = None, stex_documents = None, archive_name_cache = None\<rparr>"

definition new_STeXDocument :: "path \<Rightarrow> STeXDocument" where
  "new_STeXDocument p = \<lparr>doc_path = p, doc_info = None\<rparr>"

text \<open>\<^verbatim>\<open>get_manifest\<close>: the manifest and the repository with its manifest cache filled.\<close>

definition get_manifest :: "Env \<Rightarrow> Repository \<Rightarrow> error + (keyvals \<times> Repository)" where
  "get_manifest env self =
     (case manifest_cache self of
        Some mf \<Rightarrow> Inr (mf, self)
      | None \<Rightarrow>
          (case manifest_file env (repo_path self) of
             None \<Rightarrow> Inl FileNotFoundError
           | Some mf \<Rightarrow> Inr (mf, self\<lparr>manifest_cache := Some mf\<rparr>)))"

text \<open>
  \<^verbatim>\<open>get_archive_name\<close>, with its memoisation: the name and the repository afterwards.
\<close>

definition get_archive_name :: "Env \<Rightarrow> Repository \<Rightarrow> error + (string \<times> Repository)" where
  "get_archive_name env self =
     (case archive_name_cache self of
        Some n \<Rightarrow> Inr (n, self)
      | None \<Rightarrow>
          (case relative_to (repo_path self) (mathhub_path env) of
             Inl e \<Rightarrow> Inl e
           | Inr name_guess \<Rightarrow>
               (case get_manifest env self of
                  Inl e \<Rightarrow> Inr (name_guess, self\<lparr>archive_name_cache := Some name_guess\<rparr>)
                | Inr (mf, self') \<Rightarrow>
                    (case map_of mf ''id'' of
                       Some i \<Rightarrow> Inr (i, self'\<lparr>archive_name_cache := Some i\<rparr>)
                     | None \<Rightarrow>
                         Inr (name_guess, self'\<lparr>archive_name_cache := Some name_guess\<rparr>)))))"

text \<open>The name alone, where the caller does not look at the repository again.\<close>

definition archive_name :: "Env \<Rightarrow> Repository \<Rightarrow> error + string" where
  "archive_name env self = map_sum id fst (get_archive_name env self)"

text \<open>
  \<^verbatim>\<open>normalize_tex_file_ref(self, path, directory='source')\<close>. The memoisation of
  \<^verbatim>\<open>lru_cache\<close> does not change a result while the file system stays as it is.
\<close>

definition normalize_tex_file_ref :: "Env \<Rightarrow> Repository \<Rightarrow> string \<Rightarrow> string \<Rightarrow> error + string option" where
  "normalize_tex_file_ref env self p directory =
     (let top = joinpath (repo_path self) directory in
      if is_file env (joinpath top p) then Inr (Some p)
      else if is_file env (joinpath top (p @ ''.tex'')) then Inr (Some (p @ ''.tex''))
      else
        (let split = split_on CHR ''/'' p in
         case glob env (joinpath top (join ''/'' (butlast split))) (last split @ ''.*.tex'') of
           [] \<Rightarrow> Inr None
         | opt # _ \<Rightarrow>
             (case relative_to opt top of Inl e \<Rightarrow> Inl e | Inr r \<Rightarrow> Inr (Some r))))"

text \<open>
  A call of the method with a list of positional arguments after \<^verbatim>\<open>self\<close>. The method
  takes \<^verbatim>\<open>path\<close> and, optionally, \<^verbatim>\<open>directory\<close>; Python raises \<^verbatim>\<open>TypeError\<close> for any other
  number of positional arguments.
\<close>

fun call_normalize_tex_file_ref :: "Env \<Rightarrow> Repository \<Rightarrow> string list \<Rightarrow> error + string option" where
  "call_normalize_tex_file_ref env self [p] = normalize_tex_file_ref env self p ''source''"
| "call_normalize_tex_file_ref env self [p, directory] = normalize_tex_file_ref env self p directory"
| "call_normalize_tex_file_ref env self args = Inl TypeError"

text \<open>\<^verbatim>\<open>MathHub\<close>: the dictionary \<^verbatim>\<open>archive_lookup\<close>.\<close>

record MathHub =
  archive_lookup :: "(string \<times> Repository) list"

definition get_archive :: "MathHub \<Rightarrow> string \<Rightarrow> Repository option" where
  "get_archive self n = map_of (archive_lookup self) n"

section \<open>Dependency producers (stexdoc.py)\<close>

text \<open>
  The flags \<^verbatim>\<open>is_lib\<close>, \<^verbatim>\<open>is_use\<close> and \<^verbatim>\<open>target_no_tex\<close> of a producer carry the prefix
  \<open>dp_\<close>, since \<^verbatim>\<open>Dependency\<close> has fields of the same names.
\<close>

record DependencyProducer =
  macroname :: string
  references_module :: bool
  opt_param_is_archive :: bool
  archive_in_params :: bool
  dp_is_lib :: bool
  dp_is_use :: bool
  dp_target_no_tex :: bool

text \<open>STEP 1 of \<^verbatim>\<open>produce\<close>: the target archive named by the invocation, if any.\<close>

definition target_archive_of :: "DependencyProducer \<Rightarrow> NodeArgs \<Rightarrow> string option" where
  "target_archive_of self argd =
     (if opt_param_is_archive self then
        (case first_macro_arg_opt argd of
           None \<Rightarrow> None
         | Some opt_arg \<Rightarrow> if opt_arg \<noteq> [] then Some (strip opt_arg) else None)
      else if archive_in_params self then
        (case first_macro_arg_keyvals argd of
           None \<Rightarrow> None
         | Some params \<Rightarrow>
             (case get_val params ''archive'' of
                None \<Rightarrow> None
              | Some v \<Rightarrow> if v \<noteq> [] then Some v else None))
      else None)"

text \<open>\<^verbatim>\<open>target_archive or from_archive\<close>.\<close>

definition or_from :: "string option \<Rightarrow> string \<Rightarrow> string" where
  "or_from target_archive from_archive =
     (case target_archive of None \<Rightarrow> from_archive | Some t \<Rightarrow> if t = [] then from_archive else t)"

definition new_Dependency ::
  "DependencyProducer \<Rightarrow> string \<Rightarrow> string option \<Rightarrow> string option \<Rightarrow> span \<Rightarrow> span \<Rightarrow> Dependency" where
  "new_Dependency self a f m vr ir =
     \<lparr>archive = a, dep_file = f, dep_module_name = m, is_lib = dp_is_lib self,
      is_use = dp_is_use self, target_no_tex = dp_target_no_tex self,
      valid_range = Some vr, intro_range = Some ir\<rparr>"

text \<open>
  The loop over \<^verbatim>\<open>path_options\<close>: each candidate is passed to
  \<^verbatim>\<open>archive.normalize_tex_file_ref(path_option, top_dir, lang)\<close>, three positional arguments.
\<close>

fun resolve_path_options ::
  "Env \<Rightarrow> Repository \<Rightarrow> string \<Rightarrow> string \<Rightarrow> string list \<Rightarrow> error + string option" where
  "resolve_path_options env arch top_dir lang [] = Inr None"
| "resolve_path_options env arch top_dir lang (path_option # rest) =
     (case call_normalize_tex_file_ref env arch [path_option, top_dir, lang] of
        Inl e \<Rightarrow> Inl e
      | Inr (Some f) \<Rightarrow> Inr (Some f)
      | Inr None \<Rightarrow> resolve_path_options env arch top_dir lang rest)"

definition produce ::
  "Env \<Rightarrow> DependencyProducer \<Rightarrow> NodeArgs \<Rightarrow> int \<Rightarrow> int \<Rightarrow> string \<Rightarrow> string \<Rightarrow> MathHub
     \<Rightarrow> span \<Rightarrow> string \<Rightarrow> error + Dependency option" where
  "produce env self argd pos len from_archive from_subdir mh vr lang =
     (let target_archive = target_archive_of self argd in
      case first_main_arg argd of
        None \<Rightarrow> Inr None
      | Some main_arg \<Rightarrow>
          (let top_dir = (if dp_is_lib self then ''lib'' else ''source'');
               ir = (pos, pos + len) in
           case get_archive mh (or_from target_archive from_archive) of
             None \<Rightarrow>
               Inr (Some (new_Dependency self (or_from target_archive from_archive) None None vr ir))
           | Some arch \<Rightarrow>
               if references_module self then
                 (let (p, mname) =
                        (if CHR ''?'' \<in> set main_arg then partition_on CHR ''?'' main_arg
                         else (main_arg, last (split_on CHR ''/'' main_arg)));
                      path_options =
                        (if target_archive = None
                         then [from_subdir @ ''/'' @ p, from_subdir @ ''/'' @ p @ ''/'' @ mname]
                         else []) @ [p, p @ ''/'' @ mname] in
                  case resolve_path_options env arch top_dir lang path_options of
                    Inl e \<Rightarrow> Inl e
                  | Inr f \<Rightarrow>
                      (case archive_name env arch of
                         Inl e \<Rightarrow> Inl e
                       | Inr a \<Rightarrow> Inr (Some (new_Dependency self a f (Some mname) vr ir))))
               else if dp_target_no_tex self then
                 (case archive_name env arch of
                    Inl e \<Rightarrow> Inl e
                  | Inr a \<Rightarrow> Inr (Some (new_Dependency self a None None vr ir)))
               else
                 (let path_options =
                        (if target_archive = None then [from_subdir @ ''/'' @ main_arg] else [])
                        @ [main_arg] in
                  case resolve_path_options env arch top_dir lang path_options of
                    Inl e \<Rightarrow> Inl e
                  | Inr f \<Rightarrow>
                      (case archive_name env arch of
                         Inl e \<Rightarrow> Inl e
                       | Inr a \<Rightarrow> Inr (Some (new_Dependency self a f None vr ir))))))"

text \<open>
  The constructor call \<^verbatim>\<open>DependencyProducer(macroname, references_module=.., ..)\<close> with all
  its keyword arguments written out, in the order of the fields.
\<close>

definition DP ::
  "string \<Rightarrow> bool \<Rightarrow> bool \<Rightarrow> bool \<Rightarrow> bool \<Rightarrow> bool \<Rightarrow> bool \<Rightarrow> DependencyProducer" where
  "DP n rm opa aip lib use ntx =
     \<lparr>macroname = n, references_module = rm, opt_param_is_archive = opa,
      archive_in_params = aip, dp_is_lib = lib, dp_is_use = use, dp_target_no_tex = ntx\<rparr>"

definition DEPENDENCY_PRODUCERS :: "DependencyProducer list" where
  "DEPENDENCY_PRODUCERS =
     [DP ''usemodule'' True True False False True False,
      DP ''requiremodule'' True True False False True False,
      DP ''importmodule'' True True False False False False,
      DP ''inputref'' False True False False False False,
      DP ''mhinput'' False True False False False False,
      DP ''mhgraphics'' False False True False False True,
      DP ''cmhgraphics'' False False True False False True,
      DP ''mhtikzinput'' False False True False False True,
      DP ''cmhtikzinput'' False False True False False True,
      DP ''lstinputmhlisting'' False False True False False True,
      DP ''includeproblem'' False False True False False False,
      DP ''libinput'' False True False True False False,
      DP ''addmhbibresource'' False False True True False True]"

text \<open>The dictionary comprehension: a later entry of the same name would replace an earlier one.\<close>

definition DEPENDENCY_PRODUCER_BY_MACRONAME :: "string \<Rightarrow> DependencyProducer option" where
  "DEPENDENCY_PRODUCER_BY_MACRONAME =
     map_of (rev (map (\<lambda>dp. (macroname dp, dp)) DEPENDENCY_PRODUCERS))"

section \<open>The tree walk (STeXDocument.create_doc_info)\<close>

text \<open>
  The walk mutates the \<^verbatim>\<open>ModuleInfo\<close> objects it has already attached to the tree. Every
  such object sits at one position of the tree under \<^verbatim>\<open>doc_info.modules\<close>, and the lists
  only grow at their end, so a reference to a \<^verbatim>\<open>ModuleInfo\<close> is the list of child indices
  leading to it. The references the walk hands on are positions of modules it has created.
\<close>

type_synonym mref = "nat list"

fun module_at :: "mref \<Rightarrow> ModuleInfo list \<Rightarrow> ModuleInfo" where
  "module_at [] ms = ModuleInfo [] [] [] ms"
| "module_at [i] ms = ms ! i"
| "module_at (i # j # js) ms = module_at (j # js) (m_modules (ms ! i))"

fun modify_module :: "mref \<Rightarrow> (ModuleInfo \<Rightarrow> ModuleInfo) \<Rightarrow> ModuleInfo list \<Rightarrow> ModuleInfo list" where
  "modify_module [] f ms = ms"
| "modify_module [i] f ms = ms[i := f (ms ! i)]"
| "modify_module (i # j # js) f ms =
     ms[i := ModuleInfo (m_name (ms ! i)) (m_dependencies (ms ! i)) (m_symbols (ms ! i))
               (modify_module (j # js) f (m_modules (ms ! i)))]"

definition append_dependency :: "Dependency \<Rightarrow> ModuleInfo \<Rightarrow> ModuleInfo" where
  "append_dependency dep m =
     ModuleInfo (m_name m) (m_dependencies m @ [dep]) (m_symbols m) (m_modules m)"

definition append_module :: "ModuleInfo \<Rightarrow> ModuleInfo \<Rightarrow> ModuleInfo" where
  "append_module new m =
     ModuleInfo (m_name m) (m_dependencies m) (m_symbols m) (m_modules m @ [new])"

text \<open>
  \<^verbatim>\<open>module_info.dependencies.append(dep)\<close> when there is a current module,
  \<^verbatim>\<open>doc_info.dependencies.append(dep)\<close> otherwise.
\<close>

definition attach_dependency :: "Dependency \<Rightarrow> mref option \<Rightarrow> DocInfo \<Rightarrow> DocInfo" where
  "attach_dependency dep module_info di =
     (case module_info of
        Some r \<Rightarrow> di\<lparr>modules := modify_module r (append_dependency dep) (modules di)\<rparr>
      | None \<Rightarrow> di\<lparr>dependencies := dependencies di @ [dep]\<rparr>)"

text \<open>Python indexing of a list, negative indices counted from the end.\<close>

definition py_index :: "'a list \<Rightarrow> int \<Rightarrow> error + 'a" where
  "py_index xs i =
     (if 0 \<le> i \<and> i < int (length xs) then Inr (xs ! nat i)
      else if i < 0 \<and> - i \<le> int (length xs) then Inr (xs ! nat (int (length xs) + i))
      else Inl IndexError)"

text \<open>\<^verbatim>\<open>node.nodeargd.argnlist[i].latex_verbatim()[1:-1]\<close>.\<close>

definition arg_text :: "NodeArgs \<Rightarrow> int \<Rightarrow> error + string" where
  "arg_text argd i =
     (case py_index (argnlist argd) i of
        Inl e \<Rightarrow> Inl e
      | Inr None \<Rightarrow> Inl AttributeError
      | Inr (Some a) \<Rightarrow> Inr (strip_braces (latex_verbatim a)))"

text \<open>The symbol and the verbalization a symbol macro stands for.\<close>

definition symbol_of_macro :: "Env \<Rightarrow> string \<Rightarrow> NodeArgs \<Rightarrow> error + (string \<times> string)" where
  "symbol_of_macro env mn argd =
     (if mn = ''definiendum'' then
        (case arg_text argd (- 2) of
           Inl e \<Rightarrow> Inl e
         | Inr symbol \<Rightarrow>
             (case arg_text argd (- 1) of
                Inl e \<Rightarrow> Inl e
              | Inr verbalization \<Rightarrow> Inr (symbol, verbalization)))
      else if mn = ''symdef'' then
        (case py_index (argnlist argd) 1 of
           Inl e \<Rightarrow> Inl e
         | Inr arg \<Rightarrow>
             (case (case arg of None \<Rightarrow> None | Some a \<Rightarrow> get_val (arg_keyvals a) ''name'') of
                Some symbol \<Rightarrow> Inr (symbol, symbol)
              | None \<Rightarrow>
                  (case arg_text argd 0 of
                     Inl e \<Rightarrow> Inl e
                   | Inr symbol \<Rightarrow> Inr (symbol, symbol))))
      else if mn = ''symdecl'' then
        (case arg_text argd (- 1) of
           Inl e \<Rightarrow> Inl e
         | Inr symbol \<Rightarrow> Inr (symbol, symbol))
      else
        (case arg_text argd (- 1) of
           Inl e \<Rightarrow> Inl e
         | Inr symbol \<Rightarrow>
             Inr (symbol,
                  if mn = ''Definame'' \<and> symbol \<noteq> []
                  then upper_first (unicode_upper env) symbol else symbol)))"

text \<open>
  The search for the symbol in \<^verbatim>\<open>module_info.symbols\<close>, its creation when the search
  fails, and the \<^verbatim>\<open>append\<close> to the verbalizations of the object found or created. The
  declaration span is written only where the \<^verbatim>\<open>Symbol\<close> is created.
\<close>

fun record_symbol :: "string \<Rightarrow> string \<Rightarrow> string \<Rightarrow> int \<Rightarrow> int \<Rightarrow> Symbol list \<Rightarrow> Symbol list" where
  "record_symbol mn symbol verbalization pos len [] =
     [\<lparr>name = symbol, verbalizations = [(verbalization, pos, pos + len)],
       decl_def = (if mn = ''symdef'' \<or> mn = ''symdecl'' then Some (pos, pos + len) else None)\<rparr>]"
| "record_symbol mn symbol verbalization pos len (s # rest) =
     (if name s = symbol
      then s\<lparr>verbalizations := verbalizations s @ [(verbalization, pos, pos + len)]\<rparr> # rest
      else s # record_symbol mn symbol verbalization pos len rest)"

definition record_symbol_in :: "string \<Rightarrow> string \<Rightarrow> string \<Rightarrow> int \<Rightarrow> int \<Rightarrow> ModuleInfo \<Rightarrow> ModuleInfo" where
  "record_symbol_in mn symbol verbalization pos len m =
     ModuleInfo (m_name m) (m_dependencies m)
       (record_symbol mn symbol verbalization pos len (m_symbols m)) (m_modules m)"

text \<open>The language tag of the document: \<^verbatim>\<open>_parts[-2]\<close> when the name has more than two parts.\<close>

definition lang_of :: "path \<Rightarrow> string" where
  "lang_of p =
     (let parts = split_on CHR ''.'' (path_name p)
      in if length parts > 2 then parts ! (length parts - 2) else ''*'')"

text \<open>\<^verbatim>\<open>get_rel_path\<close> of a document of the archive \<open>arch\<close>.\<close>

definition get_rel_path :: "Repository \<Rightarrow> STeXDocument \<Rightarrow> error + string" where
  "get_rel_path arch self = relative_to (doc_path self) (repo_path arch)"

text \<open>The branch of the walk for a macro node: the \<^verbatim>\<open>DocInfo\<close> afterwards.\<close>

definition process_macro ::
  "Env \<Rightarrow> MathHub \<Rightarrow> Repository \<Rightarrow> STeXDocument \<Rightarrow> string \<Rightarrow> NodeArgs \<Rightarrow> int \<Rightarrow> int
     \<Rightarrow> span \<Rightarrow> mref option \<Rightarrow> DocInfo \<Rightarrow> error + DocInfo" where
  "process_macro env mh arch self mn argd pos len parent_range module_info di =
     (case DEPENDENCY_PRODUCER_BY_MACRONAME mn of
        Some dp \<Rightarrow>
          (case archive_name env arch of
             Inl e \<Rightarrow> Inl e
           | Inr from_archive \<Rightarrow>
               (case get_rel_path arch self of
                  Inl e \<Rightarrow> Inl e
                | Inr rel \<Rightarrow>
                    (case produce env dp argd pos len from_archive
                            (join ''/'' (tl (split_on CHR ''/'' rel))) mh parent_range
                            (lang_of (doc_path self)) of
                       Inl e \<Rightarrow> Inl e
                     | Inr None \<Rightarrow> Inr di
                     | Inr (Some dep) \<Rightarrow> Inr (attach_dependency dep module_info di))))
      | None \<Rightarrow>
          if mn \<in> set [''definiendum'', ''definame'', ''Definame'', ''symdef'', ''symdecl''] then
            (case symbol_of_macro env mn argd of
               Inl e \<Rightarrow> Inl e
             | Inr (symbol, verbalization) \<Rightarrow>
                 (case module_info of
                    Some r \<Rightarrow>
                      Inr (di\<lparr>modules :=
                             modify_module r (record_symbol_in mn symbol verbalization pos len)
                               (modules di)\<rparr>)
                  | None \<Rightarrow> Inr di))
          else Inr di)"

text \<open>
  The branch for an environment node, up to the recursive call: the current module and the
  \<^verbatim>\<open>DocInfo\<close> with which the children, and then the following siblings, are processed.
\<close>

definition enter_environment ::
  "Env \<Rightarrow> Repository \<Rightarrow> STeXDocument \<Rightarrow> string \<Rightarrow> NodeArgs \<Rightarrow> int \<Rightarrow> int
     \<Rightarrow> mref option \<Rightarrow> DocInfo \<Rightarrow> error + (mref option \<times> DocInfo)" where
  "enter_environment env arch self environmentname argd pos len module_info di =
     (if environmentname = ''smodule'' then
        (case arg_text argd 1 of
           Inl e \<Rightarrow> Inl e
         | Inr local_name \<Rightarrow>
             (let mname = (case module_info of
                             Some r \<Rightarrow> m_name (module_at r (modules di)) @ ''/'' @ local_name
                           | None \<Rightarrow> local_name);
                  new_module_info = ModuleInfo mname [] [] [];
                  r' = (case module_info of
                          Some r \<Rightarrow> r @ [length (m_modules (module_at r (modules di)))]
                        | None \<Rightarrow> [length (modules di)]);
                  di' = (case module_info of
                           Some r \<Rightarrow>
                             di\<lparr>modules :=
                                  modify_module r (append_module new_module_info) (modules di)\<rparr>
                         | None \<Rightarrow> di\<lparr>modules := modules di @ [new_module_info]\<rparr>) in
              case (case first_macro_arg_keyvals argd of
                      None \<Rightarrow> None
                    | Some params \<Rightarrow> get_val params ''sig'') of
                None \<Rightarrow> Inr (Some r', di')
              | Some sig_val \<Rightarrow>
                  if sig_val = [] then Inr (Some r', di')
                  else
                    (let name_parts = split_on CHR ''.'' (path_name (doc_path self)) in
                     case (if length name_parts > 2
                           then with_name (pathlib_before_312 env) (doc_path self)
                                  (join ''.'' (name_parts[length name_parts - 2 := sig_val]))
                           else Inr (doc_path self)) of
                       Inl e \<Rightarrow> Inl e
                     | Inr f \<Rightarrow>
                         (let file_ok = (length name_parts > 2 \<and> path_exists env f) in
                          case archive_name env arch of
                            Inl e \<Rightarrow> Inl e
                          | Inr a \<Rightarrow>
                              Inr (Some r',
                                   attach_dependency
                                     \<lparr>archive = a,
                                      dep_file = (if file_ok then Some (as_posix f) else None),
                                      dep_module_name = Some mname, is_lib = False,
                                      is_use = False, target_no_tex = False,
                                      valid_range = Some (pos, pos + len),
                                      intro_range = Some (pos, pos + len)\<rparr>
                                     (Some r') di')))))
      else Inr (module_info, di))"

text \<open>
  \<^verbatim>\<open>process(nodes, parent_range, module_info)\<close>. The assignment
  \<^verbatim>\<open>module_info = new_module_info\<close> is made to the loop's own variable, so the nodes that
  follow a module environment in the same list are processed with that module as current.
\<close>

fun process ::
  "Env \<Rightarrow> MathHub \<Rightarrow> Repository \<Rightarrow> STeXDocument \<Rightarrow> LatexNode list \<Rightarrow> span \<Rightarrow> mref option
     \<Rightarrow> DocInfo \<Rightarrow> error + DocInfo" where
  "process env mh arch self [] parent_range module_info di = Inr di"
| "process env mh arch self (LatexCommentNode # nodes) parent_range module_info di =
     process env mh arch self nodes parent_range module_info di"
| "process env mh arch self (LatexCharsNode # nodes) parent_range module_info di =
     process env mh arch self nodes parent_range module_info di"
| "process env mh arch self (LatexMathNode # nodes) parent_range module_info di =
     process env mh arch self nodes parent_range module_info di"
| "process env mh arch self (LatexSpecialsNode # nodes) parent_range module_info di =
     process env mh arch self nodes parent_range module_info di"
| "process env mh arch self (LatexGroupNode pos len nodelist # nodes) parent_range module_info di =
     (case process env mh arch self nodelist (pos, pos + len) module_info di of
        Inl e \<Rightarrow> Inl e
      | Inr di' \<Rightarrow> process env mh arch self nodes parent_range module_info di')"
| "process env mh arch self (LatexEnvironmentNode environmentname argd pos len nodelist # nodes)
       parent_range module_info di =
     (case enter_environment env arch self environmentname argd pos len module_info di of
        Inl e \<Rightarrow> Inl e
      | Inr (module_info', di') \<Rightarrow>
          (case process env mh arch self nodelist (pos, pos + len) module_info' di' of
             Inl e \<Rightarrow> Inl e
           | Inr di'' \<Rightarrow> process env mh arch self nodes parent_range module_info' di''))"
| "process env mh arch self (LatexMacroNode mn argd pos len # nodes) parent_range module_info di =
     (case process_macro env mh arch self mn argd pos len parent_range module_info di of
        Inl e \<Rightarrow> Inl e
      | Inr di' \<Rightarrow> process env mh arch self nodes parent_range module_info di')"
| "process env mh arch self (LatexOtherNode # nodes) parent_range module_info di =
     Inl UnexpectedNodeType"

section \<open>Document state (STeXDocument)\<close>

text \<open>
  \<^verbatim>\<open>create_doc_info\<close>: the file is opened and read, the modification time is taken, the
  tree is walked, and only then is the cache slot written.
\<close>

definition create_doc_info :: "Env \<Rightarrow> MathHub \<Rightarrow> Repository \<Rightarrow> STeXDocument \<Rightarrow> error + STeXDocument" where
  "create_doc_info env mh arch self =
     (case latex_nodes env (doc_path self) of
        None \<Rightarrow> Inl FileNotFoundError
      | Some (nodes, n) \<Rightarrow>
          (case st_mtime env (doc_path self) of
             None \<Rightarrow> Inl FileNotFoundError
           | Some t \<Rightarrow>
               (case process env mh arch self nodes (0, n) None
                       \<lparr>last_modified = t, dependencies = [], modules = []\<rparr> of
                  Inl e \<Rightarrow> Inl e
                | Inr di \<Rightarrow> Inr (self\<lparr>doc_info := Some di\<rparr>))))"

text \<open>\<^verbatim>\<open>get_doc_info\<close>: the \<^verbatim>\<open>DocInfo\<close> returned and the document afterwards.\<close>

definition get_doc_info ::
  "Env \<Rightarrow> MathHub \<Rightarrow> Repository \<Rightarrow> STeXDocument \<Rightarrow> error + (DocInfo \<times> STeXDocument)" where
  "get_doc_info env mh arch self =
     (case doc_info self of
        Some di \<Rightarrow> Inr (di, self)
      | None \<Rightarrow>
          (case create_doc_info env mh arch self of
             Inl e \<Rightarrow> Inl e
           | Inr self' \<Rightarrow>
               (case doc_info self' of
                  None \<Rightarrow> Inl AssertionError
                | Some di \<Rightarrow> Inr (di, self'))))"

definition delete_doc_info_if_outdated :: "Env \<Rightarrow> STeXDocument \<Rightarrow> error + STeXDocument" where
  "delete_doc_info_if_outdated env self =
     (case doc_info self of
        None \<Rightarrow> Inr self
      | Some di \<Rightarrow>
          (case st_mtime env (doc_path self) of
             None \<Rightarrow> Inl FileNotFoundError
           | Some t \<Rightarrow>
               if t > last_modified di then Inr (self\<lparr>doc_info := None\<rparr>) else Inr self))"

section \<open>Refreshing repositories and the hub (mathhub.py)\<close>

text \<open>
  \<^verbatim>\<open>d[k] = v\<close> on a dictionary: an existing key keeps its place, a new key goes to the end.
\<close>

fun dict_set :: "'k \<Rightarrow> 'v \<Rightarrow> ('k \<times> 'v) list \<Rightarrow> ('k \<times> 'v) list" where
  "dict_set k v [] = [(k, v)]"
| "dict_set k v ((k', v') # rest) =
     (if k' = k then (k, v) # rest else (k', v') # dict_set k v rest)"

text \<open>
  The first loop of \<^verbatim>\<open>Repository.update\<close>, over the files found on disk: the set
  \<^verbatim>\<open>still_needed\<close> and the dictionary of documents afterwards.
\<close>

fun refresh_documents ::
  "Env \<Rightarrow> path \<Rightarrow> path list \<Rightarrow> string list \<Rightarrow> (string \<times> STeXDocument) list
     \<Rightarrow> error + (string list \<times> (string \<times> STeXDocument) list)" where
  "refresh_documents env base [] still_needed docs = Inr (still_needed, docs)"
| "refresh_documents env base (p # rest) still_needed docs =
     (case relative_to p base of
        Inl e \<Rightarrow> Inl e
      | Inr rel_path \<Rightarrow>
          (case map_of docs rel_path of
             None \<Rightarrow>
               refresh_documents env base rest (rel_path # still_needed)
                 (dict_set rel_path (new_STeXDocument p) docs)
           | Some d \<Rightarrow>
               (case delete_doc_info_if_outdated env d of
                  Inl e \<Rightarrow> Inl e
                | Inr d' \<Rightarrow>
                    refresh_documents env base rest (rel_path # still_needed)
                      (dict_set rel_path d' docs))))"

text \<open>
  \<^verbatim>\<open>Repository.update\<close>. Its second loop runs over a copy of the keys
  (\<^verbatim>\<open>list(self._stex_documents)\<close>), so deleting from the dictionary is safe there.
\<close>

definition Repository_update :: "Env \<Rightarrow> Repository \<Rightarrow> error + Repository" where
  "Repository_update env self =
     (let self1 = self\<lparr>manifest_cache := None\<rparr> in
      case stex_documents self1 of
        None \<Rightarrow> Inr self1
      | Some docs \<Rightarrow>
          (case refresh_documents env (repo_path self1)
                  (relevant_file_iterate env (repo_path self1)) [] docs of
             Inl e \<Rightarrow> Inl e
           | Inr (still_needed, docs') \<Rightarrow>
               Inr (self1\<lparr>stex_documents :=
                            Some (filter (\<lambda>(k, d). k \<in> set still_needed) docs')\<rparr>)))"

text \<open>
  The first loop of \<^verbatim>\<open>MathHub.update\<close>, over the repositories found on disk: a
  \<^verbatim>\<open>Repository\<close> object is made for each root and entered under its archive name unless
  that name is already a key.
\<close>

fun register_repos ::
  "Env \<Rightarrow> path list \<Rightarrow> string list \<Rightarrow> (string \<times> Repository) list
     \<Rightarrow> error + (string list \<times> (string \<times> Repository) list)" where
  "register_repos env [] still_needed lookup = Inr (still_needed, lookup)"
| "register_repos env (p # rest) still_needed lookup =
     (case get_archive_name env (new_Repository p) of
        Inl e \<Rightarrow> Inl e
      | Inr (n, repo) \<Rightarrow>
          register_repos env rest (n # still_needed)
            (if map_of lookup n = None then lookup @ [(n, repo)] else lookup))"

text \<open>
  The second loop of \<^verbatim>\<open>MathHub.update\<close>: \<^verbatim>\<open>for repo in self.archive_lookup.values()\<close>, the
  live view of the dictionary. The first argument list holds the entries still to be
  visited. As long as nothing is deleted the dictionary keeps its keys and the loop visits
  every entry. A \<^verbatim>\<open>del\<close> inside the loop changes the size of the dictionary, and the
  iterator checks the size at its next step, also at the step that would end the loop:
  Python raises \<^verbatim>\<open>RuntimeError\<close> (dictionary changed size during iteration). A \<^verbatim>\<open>del\<close>
  of a name that is not a key raises \<^verbatim>\<open>KeyError\<close> at once.
\<close>

fun refresh_lookup ::
  "Env \<Rightarrow> string list \<Rightarrow> (string \<times> Repository) list \<Rightarrow> (string \<times> Repository) list
     \<Rightarrow> error + (string \<times> Repository) list" where
  "refresh_lookup env still_needed [] lookup = Inr lookup"
| "refresh_lookup env still_needed ((k, repo) # rest) lookup =
     (case get_archive_name env repo of
        Inl e \<Rightarrow> Inl e
      | Inr (n, repo1) \<Rightarrow>
          if n \<in> set still_needed then
            (case Repository_update env repo1 of
               Inl e \<Rightarrow> Inl e
             | Inr repo2 \<Rightarrow> refresh_lookup env still_needed rest (dict_set k repo2 lookup))
          else if map_of lookup n = None then Inl KeyError
          else Inl RuntimeError)"

definition MathHub_update :: "Env \<Rightarrow> MathHub \<Rightarrow> error + MathHub" where
  "MathHub_update env self =
     (case register_repos env (mathhub_repos env) [] (archive_lookup self) of
        Inl e \<Rightarrow> Inl e
      | Inr (still_needed, lookup) \<Rightarrow>
          (case refresh_lookup env still_needed lookup lookup of
             Inl e \<Rightarrow> Inl e
           | Inr lookup' \<Rightarrow> Inr (self\<lparr>archive_lookup := lookup'\<rparr>)))"

section \<open>The analysis with the repositories as shared objects\<close>

text \<open>
  \<^verbatim>\<open>get_archive_name\<close> writes to the \<^verbatim>\<open>Repository\<close> it is called on (its memo entry and
  \<^verbatim>\<open>_manifest\<close>), and an analysis calls it on the archive of the document and on the
  archives it finds in the hub, which may be one and the same object. To follow these writes
  from one analysis to the next, the \<^verbatim>\<open>Repository\<close> objects are kept in a store, the hub's
  dictionary and the document's \<^verbatim>\<open>archive\<close> hold addresses, and every function returns the
  store it leaves behind together with its result or its exception. The functions below
  are \<^verbatim>\<open>produce\<close>, the walk and \<^verbatim>\<open>create_doc_info\<close> once more, line by line, with the store
  passed along. (\<^verbatim>\<open>normalize_tex_file_ref\<close> leaves no entry in its \<^verbatim>\<open>lru_cache\<close> when it
  raises, and it always does when called from \<^verbatim>\<open>produce\<close>.)
\<close>

type_synonym addr = nat
type_synonym store = "addr \<Rightarrow> Repository"
type_synonym hub_refs = "(string \<times> addr) list"

text \<open>The hub as the functions without store see it.\<close>

definition hub_view :: "hub_refs \<Rightarrow> store \<Rightarrow> MathHub" where
  "hub_view refs h = \<lparr>archive_lookup = map (\<lambda>(k, a). (k, h a)) refs\<rparr>"

definition get_archive_name_st :: "Env \<Rightarrow> addr \<Rightarrow> store \<Rightarrow> (error + string) \<times> store" where
  "get_archive_name_st env a h =
     (case get_archive_name env (h a) of
        Inl e \<Rightarrow> (Inl e, h)
      | Inr (n, r) \<Rightarrow> (Inr n, h(a := r)))"

definition produce_st ::
  "Env \<Rightarrow> DependencyProducer \<Rightarrow> NodeArgs \<Rightarrow> int \<Rightarrow> int \<Rightarrow> string \<Rightarrow> string \<Rightarrow> hub_refs
     \<Rightarrow> span \<Rightarrow> string \<Rightarrow> store \<Rightarrow> (error + Dependency option) \<times> store" where
  "produce_st env self argd pos len from_archive from_subdir refs vr lang h =
     (let target_archive = target_archive_of self argd in
      case first_main_arg argd of
        None \<Rightarrow> (Inr None, h)
      | Some main_arg \<Rightarrow>
          (let top_dir = (if dp_is_lib self then ''lib'' else ''source'');
               ir = (pos, pos + len) in
           case map_of refs (or_from target_archive from_archive) of
             None \<Rightarrow>
               (Inr (Some (new_Dependency self (or_from target_archive from_archive)
                             None None vr ir)), h)
           | Some b \<Rightarrow>
               if references_module self then
                 (let (p, mname) =
                        (if CHR ''?'' \<in> set main_arg then partition_on CHR ''?'' main_arg
                         else (main_arg, last (split_on CHR ''/'' main_arg)));
                      path_options =
                        (if target_archive = None
                         then [from_subdir @ ''/'' @ p, from_subdir @ ''/'' @ p @ ''/'' @ mname]
                         else []) @ [p, p @ ''/'' @ mname] in
                  case resolve_path_options env (h b) top_dir lang path_options of
                    Inl e \<Rightarrow> (Inl e, h)
                  | Inr f \<Rightarrow>
                      (case get_archive_name_st env b h of
                         (Inl e, h') \<Rightarrow> (Inl e, h')
                       | (Inr a, h') \<Rightarrow>
                           (Inr (Some (new_Dependency self a f (Some mname) vr ir)), h')))
               else if dp_target_no_tex self then
                 (case get_archive_name_st env b h of
                    (Inl e, h') \<Rightarrow> (Inl e, h')
                  | (Inr a, h') \<Rightarrow> (Inr (Some (new_Dependency self a None None vr ir)), h'))
               else
                 (let path_options =
                        (if target_archive = None then [from_subdir @ ''/'' @ main_arg] else [])
                        @ [main_arg] in
                  case resolve_path_options env (h b) top_dir lang path_options of
                    Inl e \<Rightarrow> (Inl e, h)
                  | Inr f \<Rightarrow>
                      (case get_archive_name_st env b h of
                         (Inl e, h') \<Rightarrow> (Inl e, h')
                       | (Inr a, h') \<Rightarrow>
                           (Inr (Some (new_Dependency self a f None vr ir)), h')))))"

definition process_macro_st ::
  "Env \<Rightarrow> hub_refs \<Rightarrow> addr \<Rightarrow> STeXDocument \<Rightarrow> string \<Rightarrow> NodeArgs \<Rightarrow> int \<Rightarrow> int
     \<Rightarrow> span \<Rightarrow> mref option \<Rightarrow> DocInfo \<Rightarrow> store \<Rightarrow> (error + DocInfo) \<times> store" where
  "process_macro_st env refs arch self mn argd pos len parent_range module_info di h =
     (case DEPENDENCY_PRODUCER_BY_MACRONAME mn of
        Some dp \<Rightarrow>
          (case get_archive_name_st env arch h of
             (Inl e, h1) \<Rightarrow> (Inl e, h1)
           | (Inr from_archive, h1) \<Rightarrow>
               (case get_rel_path (h1 arch) self of
                  Inl e \<Rightarrow> (Inl e, h1)
                | Inr rel \<Rightarrow>
                    (case produce_st env dp argd pos len from_archive
                            (join ''/'' (tl (split_on CHR ''/'' rel))) refs parent_range
                            (lang_of (doc_path self)) h1 of
                       (Inl e, h2) \<Rightarrow> (Inl e, h2)
                     | (Inr None, h2) \<Rightarrow> (Inr di, h2)
                     | (Inr (Some dep), h2) \<Rightarrow>
                         (Inr (attach_dependency dep module_info di), h2))))
      | None \<Rightarrow>
          if mn \<in> set [''definiendum'', ''definame'', ''Definame'', ''symdef'', ''symdecl''] then
            (case symbol_of_macro env mn argd of
               Inl e \<Rightarrow> (Inl e, h)
             | Inr (symbol, verbalization) \<Rightarrow>
                 (case module_info of
                    Some r \<Rightarrow>
                      (Inr (di\<lparr>modules :=
                              modify_module r (record_symbol_in mn symbol verbalization pos len)
                                (modules di)\<rparr>), h)
                  | None \<Rightarrow> (Inr di, h)))
          else (Inr di, h))"

definition enter_environment_st ::
  "Env \<Rightarrow> addr \<Rightarrow> STeXDocument \<Rightarrow> string \<Rightarrow> NodeArgs \<Rightarrow> int \<Rightarrow> int
     \<Rightarrow> mref option \<Rightarrow> DocInfo \<Rightarrow> store \<Rightarrow> (error + (mref option \<times> DocInfo)) \<times> store" where
  "enter_environment_st env arch self environmentname argd pos len module_info di h =
     (if environmentname = ''smodule'' then
        (case arg_text argd 1 of
           Inl e \<Rightarrow> (Inl e, h)
         | Inr local_name \<Rightarrow>
             (let mname = (case module_info of
                             Some r \<Rightarrow> m_name (module_at r (modules di)) @ ''/'' @ local_name
                           | None \<Rightarrow> local_name);
                  new_module_info = ModuleInfo mname [] [] [];
                  r' = (case module_info of
                          Some r \<Rightarrow> r @ [length (m_modules (module_at r (modules di)))]
                        | None \<Rightarrow> [length (modules di)]);
                  di' = (case module_info of
                           Some r \<Rightarrow>
                             di\<lparr>modules :=
                                  modify_module r (append_module new_module_info) (modules di)\<rparr>
                         | None \<Rightarrow> di\<lparr>modules := modules di @ [new_module_info]\<rparr>) in
              case (case first_macro_arg_keyvals argd of
                      None \<Rightarrow> None
                    | Some params \<Rightarrow> get_val params ''sig'') of
                None \<Rightarrow> (Inr (Some r', di'), h)
              | Some sig_val \<Rightarrow>
                  if sig_val = [] then (Inr (Some r', di'), h)
                  else
                    (let name_parts = split_on CHR ''.'' (path_name (doc_path self)) in
                     case (if length name_parts > 2
                           then with_name (pathlib_before_312 env) (doc_path self)
                                  (join ''.'' (name_parts[length name_parts - 2 := sig_val]))
                           else Inr (doc_path self)) of
                       Inl e \<Rightarrow> (Inl e, h)
                     | Inr f \<Rightarrow>
                         (let file_ok = (length name_parts > 2 \<and> path_exists env f) in
                          case get_archive_name_st env arch h of
                            (Inl e, h1) \<Rightarrow> (Inl e, h1)
                          | (Inr a, h1) \<Rightarrow>
                              (Inr (Some r',
                                    attach_dependency
                                      \<lparr>archive = a,
                                       dep_file = (if file_ok then Some (as_posix f) else None),
                                       dep_module_name = Some mname, is_lib = False,
                                       is_use = False, target_no_tex = False,
                                       valid_range = Some (pos, pos + len),
                                       intro_range = Some (pos, pos + len)\<rparr>
                                      (Some r') di'), h1)))))
      else (Inr (module_info, di), h))"

fun process_st ::
  "Env \<Rightarrow> hub_refs \<Rightarrow> addr \<Rightarrow> STeXDocument \<Rightarrow> LatexNode list \<Rightarrow> span \<Rightarrow> mref option
     \<Rightarrow> DocInfo \<Rightarrow> store \<Rightarrow> (error + DocInfo) \<times> store" where
  "process_st env refs arch self [] parent_range module_info di h = (Inr di, h)"
| "process_st env refs arch self (LatexCommentNode # nodes) parent_range module_info di h =
     process_st env refs arch self nodes parent_range module_info di h"
| "process_st env refs arch self (LatexCharsNode # nodes) parent_range module_info di h =
     process_st env refs arch self nodes parent_range module_info di h"
| "process_st env refs arch self (LatexMathNode # nodes) parent_range module_info di h =
     process_st env refs arch self nodes parent_range module_info di h"
| "process_st env refs arch self (LatexSpecialsNode # nodes) parent_range module_info di h =
     process_st env refs arch self nodes parent_range module_info di h"
| "process_st env refs arch self (LatexGroupNode pos len nodelist # nodes) parent_range
       module_info di h =
     (case process_st env refs arch self nodelist (pos, pos + len) module_info di h of
        (Inl e, h1) \<Rightarrow> (Inl e, h1)
      | (Inr di', h1) \<Rightarrow> process_st env refs arch self nodes parent_range module_info di' h1)"
| "process_st env refs arch self
       (LatexEnvironmentNode environmentname argd pos len nodelist # nodes)
       parent_range module_info di h =
     (case enter_environment_st env arch self environmentname argd pos len module_info di h of
        (Inl e, h1) \<Rightarrow> (Inl e, h1)
      | (Inr (module_info', di'), h1) \<Rightarrow>
          (case process_st env refs arch self nodelist (pos, pos + len) module_info' di' h1 of
             (Inl e, h2) \<Rightarrow> (Inl e, h2)
           | (Inr di'', h2) \<Rightarrow>
               process_st env refs arch self nodes parent_range module_info' di'' h2))"
| "process_st env refs arch self (LatexMacroNode mn argd pos len # nodes) parent_range
       module_info di h =
     (case process_macro_st env refs arch self mn argd pos len parent_range module_info di h of
        (Inl e, h1) \<Rightarrow> (Inl e, h1)
      | (Inr di', h1) \<Rightarrow> process_st env refs arch self nodes parent_range module_info di' h1)"
| "process_st env refs arch self (LatexOtherNode # nodes) parent_range module_info di h =
     (Inl UnexpectedNodeType, h)"

text \<open>
  \<^verbatim>\<open>create_doc_info\<close> of a document whose archive is the object at \<open>arch\<close>: the exception,
  or the document with its cache slot written, and the store afterwards.
\<close>

definition create_doc_info_st ::
  "Env \<Rightarrow> hub_refs \<Rightarrow> addr \<Rightarrow> STeXDocument \<Rightarrow> store \<Rightarrow> (error + STeXDocument) \<times> store" where
  "create_doc_info_st env refs arch self h =
     (case latex_nodes env (doc_path self) of
        None \<Rightarrow> (Inl FileNotFoundError, h)
      | Some (nodes, n) \<Rightarrow>
          (case st_mtime env (doc_path self) of
             None \<Rightarrow> (Inl FileNotFoundError, h)
           | Some t \<Rightarrow>
               (case process_st env refs arch self nodes (0, n) None
                       \<lparr>last_modified = t, dependencies = [], modules = []\<rparr> h of
                  (Inl e, h1) \<Rightarrow> (Inl e, h1)
                | (Inr di, h1) \<Rightarrow> (Inr (self\<lparr>doc_info := Some di\<rparr>), h1))))"

text \<open>
  Two stores agree for the analysis when every object has the same path and gives the same
  answer to \<^verbatim>\<open>get_archive_name\<close> in both. A store is warmed from another when every object
  is as it was or as a call of \<^verbatim>\<open>get_archive_name\<close> leaves it.
\<close>

definition alike :: "Env \<Rightarrow> store \<Rightarrow> store \<Rightarrow> bool" where
  "alike env h h' =
     (\<forall>a. archive_name env (h' a) = archive_name env (h a) \<and> repo_path (h' a) = repo_path (h a))"

definition warm :: "Env \<Rightarrow> store \<Rightarrow> store \<Rightarrow> bool" where
  "warm env h h' = (\<forall>a. h' a = h a \<or> (\<exists>n. get_archive_name env (h a) = Inr (n, h' a)))"

section \<open>Example inputs\<close>

text \<open>
  A hub at \<^verbatim>\<open>/MathHub\<close> with one archive \<^verbatim>\<open>a\<close> and the document
  \<^verbatim>\<open>/MathHub/a/source/set.de.tex\<close>, whose parsed content is given as a parameter. Its
  sibling \<^verbatim>\<open>set.en.tex\<close> exists; no file reference resolves (\<^verbatim>\<open>is_file\<close> is false and
  \<^verbatim>\<open>glob\<close> finds nothing). The document was last modified at time 7. No example
  upper-cases a character outside ASCII, so the upper-case table is left trivial.
\<close>

definition example_doc_path :: path where
  "example_doc_path = [''MathHub'', ''a'', ''source'', ''set.de.tex'']"

definition example_env :: "LatexNode list \<Rightarrow> Env" where
  "example_env nodes =
     \<lparr>mathhub_path = [''MathHub''],
      manifest_file = (\<lambda>p. None),
      is_file = (\<lambda>p. False),
      path_exists = (\<lambda>p. p = [''MathHub'', ''a'', ''source'', ''set.en.tex'']),
      glob = (\<lambda>p pat. []),
      st_mtime = (\<lambda>p. if p = example_doc_path then Some 7 else None),
      latex_nodes = (\<lambda>p. if p = example_doc_path then Some (nodes, 100) else None),
      relevant_file_iterate = (\<lambda>p. []),
      mathhub_repos = [],
      unicode_upper = (\<lambda>c. c),
      pathlib_before_312 = False\<rparr>"

definition example_repo :: Repository where
  "example_repo =
     \<lparr>repo_path = [''MathHub'', ''a''], manifest_cache = None, stex_documents = None,
      archive_name_cache = Some ''a''\<rparr>"

definition example_hub :: MathHub where
  "example_hub = \<lparr>archive_lookup = [(''a'', example_repo)]\<rparr>"

definition example_doc :: STeXDocument where
  "example_doc = \<lparr>doc_path = example_doc_path, doc_info = None\<rparr>"

text \<open>An argument descriptor with nothing in it, and an argument node with the text \<^verbatim>\<open>{s}\<close>.\<close>

definition no_args :: NodeArgs where
  "no_args =
     \<lparr>first_macro_arg_opt = None, first_macro_arg_keyvals = None, first_main_arg = None,
      argnlist = []\<rparr>"

definition braced :: "string \<Rightarrow> ArgNode option" where
  "braced s = Some \<lparr>latex_verbatim = ''{'' @ s @ ''}'', arg_keyvals = []\<rparr>"

text \<open>\<^verbatim>\<open>\begin{smodule}{n} ... \end{smodule}\<close> without parameters, and with \<^verbatim>\<open>sig=v\<close>.\<close>

definition smodule :: "string \<Rightarrow> int \<Rightarrow> int \<Rightarrow> LatexNode list \<Rightarrow> LatexNode" where
  "smodule n pos len nodelist =
     LatexEnvironmentNode ''smodule'' (no_args\<lparr>argnlist := [None, braced n]\<rparr>) pos len nodelist"

definition smodule_sig :: "string \<Rightarrow> string \<Rightarrow> int \<Rightarrow> int \<Rightarrow> LatexNode list \<Rightarrow> LatexNode" where
  "smodule_sig v n pos len nodelist =
     LatexEnvironmentNode ''smodule''
       (no_args\<lparr>first_macro_arg_keyvals := Some [(''sig'', v)], argnlist := [None, braced n]\<rparr>)
       pos len nodelist"

text \<open>\<^verbatim>\<open>\symdecl{s}\<close> and \<^verbatim>\<open>\symdef{s}{}\<close> and \<^verbatim>\<open>\definiendum{s}{v}\<close>.\<close>

definition symdecl :: "string \<Rightarrow> int \<Rightarrow> int \<Rightarrow> LatexNode" where
  "symdecl s pos len =
     LatexMacroNode ''symdecl'' (no_args\<lparr>argnlist := [None, braced s]\<rparr>) pos len"

definition symdef :: "string \<Rightarrow> int \<Rightarrow> int \<Rightarrow> LatexNode" where
  "symdef s pos len =
     LatexMacroNode ''symdef'' (no_args\<lparr>argnlist := [braced s, None]\<rparr>) pos len"

definition definiendum :: "string \<Rightarrow> string \<Rightarrow> int \<Rightarrow> int \<Rightarrow> LatexNode" where
  "definiendum s v pos len =
     LatexMacroNode ''definiendum'' (no_args\<lparr>argnlist := [braced s, braced v]\<rparr>) pos len"

text \<open>A result of an earlier analysis, made at time 5, and the document that caches it.\<close>

definition example_doc_info :: DocInfo where
  "example_doc_info = \<lparr>last_modified = 5, dependencies = [], modules = []\<rparr>"

definition cached_doc :: STeXDocument where
  "cached_doc = \<lparr>doc_path = example_doc_path, doc_info = Some example_doc_info\<rparr>"

text \<open>A document with a cached result whose file is no longer on disk.\<close>

definition lost_doc :: STeXDocument where
  "lost_doc =
     \<lparr>doc_path = [''MathHub'', ''a'', ''source'', ''gone.tex''],
      doc_info = Some example_doc_info\<rparr>"

text \<open>
  A document whose resolved path is not below the path of its archive (a symbolic link in
  \<^verbatim>\<open>source\<close> to a file elsewhere resolves to such a path), and a repository outside the hub
  root whose name has not been computed, with a document of its own.
\<close>

definition stray_doc :: STeXDocument where
  "stray_doc = \<lparr>doc_path = [''elsewhere'', ''set.de.tex''], doc_info = None\<rparr>"

definition unrooted_repo :: Repository where
  "unrooted_repo = new_Repository [''elsewhere'', ''a'']"

definition unrooted_doc :: STeXDocument where
  "unrooted_doc = \<lparr>doc_path = [''elsewhere'', ''a'', ''source'', ''set.de.tex''], doc_info = None\<rparr>"

text \<open>
  The example hub with its archive as an object in a store: the object at address 0 is a
  fresh \<^verbatim>\<open>Repository\<close> for \<^verbatim>\<open>/MathHub/a\<close> whose name has not been computed yet, and
  \<open>named_repo\<close> is that object once \<^verbatim>\<open>get_archive_name\<close> has been called on it.
\<close>

definition example_refs :: hub_refs where
  "example_refs = [(''a'', 0)]"

definition example_store :: store where
  "example_store = (\<lambda>a. new_Repository [''MathHub'', ''a''])"

definition named_repo :: Repository where
  "named_repo = (new_Repository [''MathHub'', ''a''])\<lparr>archive_name_cache := Some ''a''\<rparr>"

section \<open>Shallow flattening\<close>

lemma yield_module_dependencies_concat:
  "yield_module_dependencies ms = concat (map m_dependencies ms)"
  by (induction ms) simp_all

lemma yield_module_dependencies_cut:
  "yield_module_dependencies (map without_submodules ms) = yield_module_dependencies ms"
  by (induction ms) (simp_all add: without_submodules_def)

text \<open>
  C8. \<^verbatim>\<open>flattened_dependencies\<close> of a module yields the module's own dependencies followed
  by the own dependencies of its immediate submodules, in order, and \<^verbatim>\<open>DocInfo\<close> does the
  same with its top-level modules. Nothing of a deeper descendant is yielded: the result is
  the same when every immediate submodule has its own submodules removed.
\<close>

theorem flattened_dependencies_one_level:
  "flattened_dependencies (ModuleInfo n d s ms) = d @ concat (map m_dependencies ms)
   \<and> flattened_dependencies (ModuleInfo n d s (map without_submodules ms))
       = flattened_dependencies (ModuleInfo n d s ms)
   \<and> DocInfo_flattened_dependencies di
       = dependencies di @ concat (map m_dependencies (modules di))
   \<and> DocInfo_flattened_dependencies (di\<lparr>modules := map without_submodules (modules di)\<rparr>)
       = DocInfo_flattened_dependencies di"
  by (simp add: flattened_dependencies_def DocInfo_flattened_dependencies_def
      yield_module_dependencies_concat [symmetric] yield_module_dependencies_cut)

section \<open>The cache of a document\<close>

text \<open>
  C6. \<^verbatim>\<open>delete_doc_info_if_outdated\<close>, for every document and file system. When the
  modification time of the backing file can be read, the call returns normally with the
  same document (same path); a cached \<^verbatim>\<open>DocInfo\<close> is discarded exactly when one exists and
  the modification time is strictly greater than the time stored in it, and in every other
  case the cache slot is left as it was. Without a cached \<^verbatim>\<open>DocInfo\<close> the document is
  returned as it is and the file is not looked at. The call fails only when a \<^verbatim>\<open>DocInfo\<close> is
  cached and the file is gone, and then nothing has been changed.
\<close>

theorem delete_doc_info_if_outdated_iff_stale:
  "(st_mtime env (doc_path d) = Some t \<longrightarrow>
      (\<exists>d'. delete_doc_info_if_outdated env d = Inr d' \<and> doc_path d' = doc_path d
        \<and> ((doc_info d \<noteq> None \<and> doc_info d' = None)
             = (\<exists>di. doc_info d = Some di \<and> last_modified di < t))
        \<and> (doc_info d' = None \<or> doc_info d' = doc_info d)))
   \<and> (doc_info d = None \<longrightarrow> delete_doc_info_if_outdated env d = Inr d)
   \<and> (\<forall>e. delete_doc_info_if_outdated env d = Inl e \<longrightarrow>
         e = FileNotFoundError \<and> doc_info d \<noteq> None \<and> st_mtime env (doc_path d) = None)"
  by (cases "doc_info d"; cases "st_mtime env (doc_path d)")
     (auto simp: delete_doc_info_if_outdated_def)

theorem delete_doc_info_if_outdated_iff_stale_witness:
  "st_mtime (example_env []) (doc_path cached_doc) = Some 7
   \<and> delete_doc_info_if_outdated (example_env []) cached_doc = Inr example_doc
   \<and> doc_info example_doc = None
   \<and> delete_doc_info_if_outdated (example_env []) example_doc = Inr example_doc
   \<and> delete_doc_info_if_outdated (example_env []) lost_doc = Inl FileNotFoundError
   \<and> st_mtime (example_env []) (doc_path lost_doc) = None"
  using delete_doc_info_if_outdated_iff_stale [of "example_env []" cached_doc 7]
    delete_doc_info_if_outdated_iff_stale [of "example_env []" example_doc 7]
    delete_doc_info_if_outdated_iff_stale [of "example_env []" lost_doc 7]
  by (auto simp: example_env_def cached_doc_def example_doc_def example_doc_info_def
      lost_doc_def example_doc_path_def delete_doc_info_if_outdated_def)

text \<open>
  C10. A document whose cache slot is filled answers \<^verbatim>\<open>get_doc_info\<close> with the cached
  \<^verbatim>\<open>DocInfo\<close> and is left unchanged, whatever the file system says: no modification time is
  read, so a stale result is returned as it is.
\<close>

theorem get_doc_info_returns_cache:
  "doc_info d = Some di \<Longrightarrow> get_doc_info env mh arch d = Inr (di, d)"
  by (simp add: get_doc_info_def)

theorem get_doc_info_returns_cache_witness:
  "doc_info cached_doc = Some example_doc_info
   \<and> st_mtime (example_env []) (doc_path cached_doc) = Some 7
   \<and> last_modified example_doc_info < 7
   \<and> get_doc_info (example_env []) example_hub example_repo cached_doc
       = Inr (example_doc_info, cached_doc)"
  using get_doc_info_returns_cache
    [of cached_doc example_doc_info "example_env []" example_hub example_repo]
  by (simp add: cached_doc_def example_env_def example_doc_info_def)

section \<open>Analysis does not depend on the cache\<close>

lemma doc_path_cache: "doc_path (self\<lparr>doc_info := c\<rparr>) = doc_path self"
  by simp

lemma process_macro_cache:
  "process_macro env mh arch (self\<lparr>doc_info := c\<rparr>) mn argd pos len pr mi di
   = process_macro env mh arch self mn argd pos len pr mi di"
  unfolding process_macro_def get_rel_path_def doc_path_cache by (rule refl)

lemma enter_environment_cache:
  "enter_environment env arch (self\<lparr>doc_info := c\<rparr>) en argd pos len mi di
   = enter_environment env arch self en argd pos len mi di"
  unfolding enter_environment_def doc_path_cache by (rule refl)

lemma process_cache:
  "process env mh arch (self\<lparr>doc_info := c\<rparr>) nodes pr mi di
   = process env mh arch self nodes pr mi di"
  by (induction env mh arch self nodes pr mi di rule: process.induct)
     (simp_all add: process_macro_cache enter_environment_cache split: sum.splits)

lemma create_doc_info_cache:
  "create_doc_info env mh arch (d\<lparr>doc_info := c\<rparr>) = create_doc_info env mh arch d"
  by (simp add: create_doc_info_def process_cache split: option.splits sum.splits)

lemma create_doc_info_result:
  assumes "create_doc_info env mh arch d = Inr d1"
  shows "\<exists>di. d1 = d\<lparr>doc_info := Some di\<rparr>"
  using assms by (auto simp: create_doc_info_def split: option.splits sum.splits)

section \<open>Analysis run twice\<close>

text \<open>
  A call of \<^verbatim>\<open>get_archive_name\<close> leaves the object in a state in which the same call gives
  the same name and changes nothing more, so a warmed store gives the same answers.
\<close>

lemma get_archive_name_again:
  assumes "get_archive_name env r = Inr (n, r')"
  shows "get_archive_name env r' = Inr (n, r')" and "repo_path r' = repo_path r"
  using assms
  by (auto simp: get_archive_name_def get_manifest_def
      split: option.splits sum.splits prod.splits)

lemma warm_refl: "warm env h h"
  by (simp add: warm_def)

lemma warm_alike: "warm env h h' \<Longrightarrow> alike env h h'"
  unfolding warm_def alike_def archive_name_def
  by (metis get_archive_name_again)

lemma warm_trans: "warm env h h1 \<Longrightarrow> warm env h1 h2 \<Longrightarrow> warm env h h2"
  unfolding warm_def
  by (metis get_archive_name_again(1) prod.inject sum.inject(2))

lemma get_archive_name_st_warm: "warm env h (snd (get_archive_name_st env a h))"
  by (auto simp: get_archive_name_st_def warm_def split: sum.splits prod.splits)

lemma get_archive_name_st_fst:
  "fst (get_archive_name_st env a h) = archive_name env (h a)"
  by (auto simp: get_archive_name_st_def archive_name_def split: sum.splits prod.splits)


lemma get_archive_view: "get_archive (hub_view refs h) n = map_option h (map_of refs n)"
  by (induction refs) (auto simp: get_archive_def hub_view_def)

lemma normalize_tex_file_ref_path:
  assumes "repo_path r' = repo_path r"
  shows "normalize_tex_file_ref env r' p d = normalize_tex_file_ref env r p d"
  using assms by (simp add: normalize_tex_file_ref_def)

lemma call_normalize_tex_file_ref_path:
  assumes "repo_path r' = repo_path r"
  shows "call_normalize_tex_file_ref env r' args = call_normalize_tex_file_ref env r args"
  by (cases "(env, r, args)" rule: call_normalize_tex_file_ref.cases)
     (simp_all add: normalize_tex_file_ref_path [OF assms])

lemma resolve_path_options_path:
  assumes "repo_path r' = repo_path r"
  shows "resolve_path_options env r' top_dir lang ps = resolve_path_options env r top_dir lang ps"
  by (induction ps) (simp_all add: call_normalize_tex_file_ref_path [OF assms])

lemma produce_alike:
  assumes "alike env h h'"
  shows "produce env dp argd pos len fa fs (hub_view refs h') vr lang
       = produce env dp argd pos len fa fs (hub_view refs h) vr lang"
proof -
  have n: "archive_name env (h' b) = archive_name env (h b)" for b
    using assms by (simp add: alike_def)
  have p: "resolve_path_options env (h' b) t l ps = resolve_path_options env (h b) t l ps"
    for b t l ps
    using assms by (intro resolve_path_options_path) (simp add: alike_def)
  show ?thesis
  proof (cases "map_of refs (or_from (target_archive_of dp argd) fa)")
    case None
    then have g: "get_archive (hub_view refs h) (or_from (target_archive_of dp argd) fa) = None"
      and g': "get_archive (hub_view refs h') (or_from (target_archive_of dp argd) fa) = None"
      by (simp_all add: get_archive_view)
    show ?thesis
      unfolding produce_def Let_def g g' by (rule refl)
  next
    case (Some b)
    then have g: "get_archive (hub_view refs h) (or_from (target_archive_of dp argd) fa)
                  = Some (h b)"
      and g': "get_archive (hub_view refs h') (or_from (target_archive_of dp argd) fa)
                  = Some (h' b)"
      by (simp_all add: get_archive_view)
    show ?thesis
      unfolding produce_def Let_def g g' option.case n p by (rule refl)
  qed
qed

lemma process_macro_alike:
  assumes "alike env h h'"
  shows "process_macro env (hub_view refs h') (h' a) self mn argd pos len pr mi di
       = process_macro env (hub_view refs h) (h a) self mn argd pos len pr mi di"
proof -
  have n: "archive_name env (h' a) = archive_name env (h a)"
    and r: "get_rel_path (h' a) self = get_rel_path (h a) self"
    using assms by (simp_all add: alike_def get_rel_path_def)
  show ?thesis
    unfolding process_macro_def n r produce_alike [OF assms] by (rule refl)
qed

lemma enter_environment_alike:
  assumes "alike env h h'"
  shows "enter_environment env (h' a) self en argd pos len mi di
       = enter_environment env (h a) self en argd pos len mi di"
proof -
  have n: "archive_name env (h' a) = archive_name env (h a)"
    using assms by (simp add: alike_def)
  show ?thesis
    unfolding enter_environment_def n by (rule refl)
qed

lemma process_cong_env:
  assumes "\<And>mn argd pos len pr mi di.
             process_macro env mh' arch' self mn argd pos len pr mi di
             = process_macro env mh arch self mn argd pos len pr mi di"
    and "\<And>en argd pos len mi di.
             enter_environment env arch' self en argd pos len mi di
             = enter_environment env arch self en argd pos len mi di"
  shows "process env mh' arch' self nodes pr mi di = process env mh arch self nodes pr mi di"
  using assms
  by (induction env mh arch self nodes pr mi di rule: process.induct)
     (simp_all split: sum.splits)

lemma process_alike:
  assumes "alike env h h'"
  shows "process env (hub_view refs h') (h' a) self nodes pr mi di
       = process env (hub_view refs h) (h a) self nodes pr mi di"
  by (rule process_cong_env)
     (simp_all add: process_macro_alike [OF assms] enter_environment_alike [OF assms])


lemma get_archive_name_st_cases:
  obtains (fail) e where "get_archive_name_st env a h = (Inl e, h)"
      and "archive_name env (h a) = Inl e"
    | (ok) n h' where "get_archive_name_st env a h = (Inr n, h')"
      and "archive_name env (h a) = Inr n" and "warm env h h'"
proof (cases "get_archive_name env (h a)")
  case (Inl e)
  then show ?thesis
    using fail by (simp add: get_archive_name_st_def archive_name_def)
next
  case (Inr x)
  then obtain n r where x: "get_archive_name env (h a) = Inr (n, r)"
    by (cases x) simp
  have "warm env h (h(a := r))"
    using x by (auto simp: warm_def)
  with x show ?thesis
    using ok [of n "h(a := r)"] by (simp add: get_archive_name_st_def archive_name_def)
qed

lemma produce_st_refines:
  "fst (produce_st env dp argd pos len fa fs refs vr lang h)
     = produce env dp argd pos len fa fs (hub_view refs h) vr lang
   \<and> warm env h (snd (produce_st env dp argd pos len fa fs refs vr lang h))"
proof (cases "first_main_arg argd")
  case None
  then show ?thesis
    by (simp add: produce_st_def produce_def warm_refl)
next
  case main: (Some main_arg)
  show ?thesis
  proof (cases "map_of refs (or_from (target_archive_of dp argd) fa)")
    case None
    with main show ?thesis
      by (simp add: produce_st_def produce_def get_archive_view warm_refl Let_def)
  next
    case (Some b)
    show ?thesis
    proof (cases rule: get_archive_name_st_cases [of env b h])
      case (fail e)
      with main Some show ?thesis
        by (simp add: produce_st_def produce_def get_archive_view warm_refl Let_def
            split: sum.splits prod.splits)
    next
      case (ok n h')
      with main Some show ?thesis
        by (simp add: produce_st_def produce_def get_archive_view warm_refl Let_def
            split: sum.splits prod.splits)
    qed
  qed
qed


lemma warm_rel_path:
  "warm env h h' \<Longrightarrow> get_rel_path (h' a) self = get_rel_path (h a) self"
  using warm_alike [of env h h'] by (simp add: alike_def get_rel_path_def)

lemma process_macro_st_refines:
  "fst (process_macro_st env refs a self mn argd pos len pr mi di h)
     = process_macro env (hub_view refs h) (h a) self mn argd pos len pr mi di
   \<and> warm env h (snd (process_macro_st env refs a self mn argd pos len pr mi di h))"
proof (cases "DEPENDENCY_PRODUCER_BY_MACRONAME mn")
  case None
  then show ?thesis
    by (simp add: process_macro_st_def process_macro_def warm_refl
        split: sum.splits prod.splits option.splits)
next
  case dp: (Some dp)
  show ?thesis
  proof (cases rule: get_archive_name_st_cases [of env a h])
    case (fail e)
    with dp show ?thesis
      by (simp add: process_macro_st_def process_macro_def warm_refl)
  next
    case (ok n h1)
    note rel = warm_rel_path [OF ok(3), of a self]
    show ?thesis
    proof (cases "get_rel_path (h a) self")
      case (Inl e)
      with dp ok rel show ?thesis
        by (simp add: process_macro_st_def process_macro_def)
    next
      case (Inr rel_path)
      let ?p = "produce_st env dp argd pos len n (join ''/'' (tl (split_on CHR ''/'' rel_path)))
                  refs pr (lang_of (doc_path self)) h1"
      obtain res h2 where p: "?p = (res, h2)"
        by (cases ?p)
      from produce_st_refines [of env dp argd pos len n
          "join ''/'' (tl (split_on CHR ''/'' rel_path))" refs pr "lang_of (doc_path self)" h1] p
      have res: "res = produce env dp argd pos len n
                   (join ''/'' (tl (split_on CHR ''/'' rel_path))) (hub_view refs h) pr
                   (lang_of (doc_path self))"
        and w: "warm env h h2"
        using produce_alike [OF warm_alike [OF ok(3)]] warm_trans [OF ok(3)] by simp_all
      from dp ok rel Inr p res [symmetric] w show ?thesis
        by (simp add: process_macro_st_def process_macro_def
            split: sum.splits option.splits)
    qed
  qed
qed

lemma enter_environment_st_refines:
  "fst (enter_environment_st env a self en argd pos len mi di h)
     = enter_environment env (h a) self en argd pos len mi di
   \<and> warm env h (snd (enter_environment_st env a self en argd pos len mi di h))"
proof (cases rule: get_archive_name_st_cases [of env a h])
  case (fail e)
  then show ?thesis
    by (simp add: enter_environment_st_def enter_environment_def warm_refl Let_def
        split: sum.splits option.splits)
next
  case (ok n h')
  then show ?thesis
    by (simp add: enter_environment_st_def enter_environment_def warm_refl Let_def
        split: sum.splits option.splits)
qed


lemma process_st_refines:
  "fst (process_st env refs a self nodes pr mi di h)
     = process env (hub_view refs h) (h a) self nodes pr mi di
   \<and> warm env h (snd (process_st env refs a self nodes pr mi di h))"
proof (induction env refs a self nodes pr mi di h rule: process_st.induct)
  case (1 env refs arch self parent_range module_info di h)
  show ?case by (simp add: warm_refl)
next
  case (6 env refs arch self pos len nodelist nodes parent_range module_info di h)
  obtain r1 h1 where
    p1: "process_st env refs arch self nodelist (pos, pos + len) module_info di h = (r1, h1)"
    by (cases "process_st env refs arch self nodelist (pos, pos + len) module_info di h")
  from "6.IH"(1) p1 have
    r1: "process env (hub_view refs h) (h arch) self nodelist (pos, pos + len) module_info di = r1"
    and w1: "warm env h h1"
    by simp_all
  show ?case
  proof (cases r1)
    case (Inl e)
    with p1 r1 w1 show ?thesis by simp
  next
    case (Inr di')
    from "6.IH"(2) [OF p1 [symmetric] Inr]
      process_alike [OF warm_alike [OF w1], of refs arch self nodes parent_range module_info di']
      warm_trans [OF w1]
    show ?thesis
      using p1 r1 Inr by simp
  qed
next
  case (7 env refs arch self environmentname argd pos len nodelist nodes parent_range
      module_info di h)
  obtain r0 h0 where
    p0: "enter_environment_st env arch self environmentname argd pos len module_info di h
         = (r0, h0)"
    by (cases "enter_environment_st env arch self environmentname argd pos len module_info di h")
  from enter_environment_st_refines [of env arch self environmentname argd pos len
      module_info di h] p0
  have r0: "enter_environment env (h arch) self environmentname argd pos len module_info di = r0"
    and w0: "warm env h h0"
    by simp_all
  show ?case
  proof (cases r0)
    case (Inl e)
    with p0 r0 w0 show ?thesis by simp
  next
    case (Inr b)
    obtain mi' di' where b: "b = (mi', di')"
      by (cases b)
    obtain r1 h1 where
      p1: "process_st env refs arch self nodelist (pos, pos + len) mi' di' h0 = (r1, h1)"
      by (cases "process_st env refs arch self nodelist (pos, pos + len) mi' di' h0")
    from "7.IH"(1) [OF p0 [symmetric] Inr b [symmetric]] p1
      process_alike [OF warm_alike [OF w0], of refs arch self nodelist "(pos, pos + len)" mi' di']
      warm_trans [OF w0]
    have r1: "process env (hub_view refs h) (h arch) self nodelist (pos, pos + len) mi' di' = r1"
      and w1: "warm env h h1"
      by simp_all
    show ?thesis
    proof (cases r1)
      case (Inl e)
      with p0 r0 Inr b p1 r1 w1 show ?thesis by simp
    next
      case inner: (Inr di'')
      from "7.IH"(2) [OF p0 [symmetric] Inr b [symmetric] p1 [symmetric] inner]
        process_alike [OF warm_alike [OF w1], of refs arch self nodes parent_range mi' di'']
        warm_trans [OF w1]
      show ?thesis
        using p0 r0 Inr b p1 r1 inner by simp
    qed
  qed
next
  case (8 env refs arch self mn argd pos len nodes parent_range module_info di h)
  obtain r1 h1 where
    p1: "process_macro_st env refs arch self mn argd pos len parent_range module_info di h
         = (r1, h1)"
    by (cases "process_macro_st env refs arch self mn argd pos len parent_range module_info di h")
  from process_macro_st_refines [of env refs arch self mn argd pos len parent_range
      module_info di h] p1
  have r1: "process_macro env (hub_view refs h) (h arch) self mn argd pos len parent_range
              module_info di = r1"
    and w1: "warm env h h1"
    by simp_all
  show ?case
  proof (cases r1)
    case (Inl e)
    with p1 r1 w1 show ?thesis by simp
  next
    case (Inr di')
    from "8.IH" [OF p1 [symmetric] Inr]
      process_alike [OF warm_alike [OF w1], of refs arch self nodes parent_range module_info di']
      warm_trans [OF w1]
    show ?thesis
      using p1 r1 Inr by simp
  qed
next
  case (9 env refs arch self nodes parent_range module_info di h)
  show ?case by (simp add: warm_refl)
qed simp_all


lemma create_doc_info_st_refines:
  "fst (create_doc_info_st env refs a d h) = create_doc_info env (hub_view refs h) (h a) d
   \<and> warm env h (snd (create_doc_info_st env refs a d h))"
proof (cases "latex_nodes env (doc_path d)")
  case None
  then show ?thesis
    by (simp add: create_doc_info_st_def create_doc_info_def warm_refl)
next
  case (Some pn)
  obtain nodes n where pn: "pn = (nodes, n)"
    by (cases pn)
  show ?thesis
  proof (cases "st_mtime env (doc_path d)")
    case None
    with Some pn show ?thesis
      by (simp add: create_doc_info_st_def create_doc_info_def warm_refl)
  next
    case t: (Some t)
    let ?w = "process_st env refs a d nodes (0, n) None
                \<lparr>last_modified = t, dependencies = [], modules = []\<rparr> h"
    obtain r1 h1 where p: "?w = (r1, h1)"
      by (cases ?w)
    from process_st_refines [of env refs a d nodes "(0, n)" None
        "\<lparr>last_modified = t, dependencies = [], modules = []\<rparr>" h] p
    have "process env (hub_view refs h) (h a) d nodes (0, n) None
            \<lparr>last_modified = t, dependencies = [], modules = []\<rparr> = r1"
      and "warm env h h1"
      by simp_all
    with Some pn t p show ?thesis
      by (simp add: create_doc_info_st_def create_doc_info_def split: sum.splits)
  qed
qed

lemma create_doc_info_alike:
  assumes "alike env h h'"
  shows "create_doc_info env (hub_view refs h') (h' a) d
       = create_doc_info env (hub_view refs h) (h a) d"
  unfolding create_doc_info_def process_alike [OF assms] by (rule refl)

text \<open>
  C7. \<^verbatim>\<open>create_doc_info\<close> is run on a document, and then run again on what the first run
  left behind: the same file system, the same hub, the store with every \<^verbatim>\<open>Repository\<close> as
  the first run left it (names memoised, manifests loaded), and the document with the cache
  slot the first run wrote. The second run has the outcome of the first: it writes a
  \<^verbatim>\<open>DocInfo\<close> equal in all fields, or raises the same exception.
\<close>

theorem create_doc_info_st_again:
  assumes "create_doc_info_st env refs a d h = (r, h1)"
  shows "fst (create_doc_info_st env refs a (case r of Inl e \<Rightarrow> d | Inr d1 \<Rightarrow> d1) h1) = r"
proof -
  from create_doc_info_st_refines [of env refs a d h] assms
  have r: "create_doc_info env (hub_view refs h) (h a) d = r" and w: "warm env h h1"
    by simp_all
  have d: "create_doc_info env (hub_view refs h) (h a) (case r of Inl e \<Rightarrow> d | Inr d1 \<Rightarrow> d1) = r"
  proof (cases r)
    case (Inl e)
    with r show ?thesis by simp
  next
    case (Inr d1)
    with r obtain di where "d1 = d\<lparr>doc_info := Some di\<rparr>"
      using create_doc_info_result by blast
    with r Inr show ?thesis
      by (simp add: create_doc_info_cache)
  qed
  from create_doc_info_st_refines [of env refs a "case r of Inl e \<Rightarrow> d | Inr d1 \<Rightarrow> d1" h1]
    create_doc_info_alike [OF warm_alike [OF w]] d
  show ?thesis by simp
qed

lemma example_analysis_st:
  "create_doc_info_st (example_env [smodule_sig ''en'' ''set'' 0 90 [symdecl ''x'' 20 12]])
     example_refs 0 example_doc example_store
   = (Inr (example_doc\<lparr>doc_info := Some \<lparr>last_modified = 7, dependencies = [],
       modules = [ModuleInfo ''set''
         [\<lparr>archive = ''a'', dep_file = Some ''/MathHub/a/source/set.en.tex'',
           dep_module_name = Some ''set'', is_lib = False, is_use = False,
           target_no_tex = False, valid_range = Some (0, 90),
           intro_range = Some (0, 90)\<rparr>]
         [\<lparr>name = ''x'', verbalizations = [(''x'', 20, 32)], decl_def = Some (20, 32)\<rparr>] []]\<rparr>\<rparr>),
      example_store(0 := named_repo))"
  by (simp add: create_doc_info_st_def example_env_def example_doc_def example_doc_path_def
      smodule_sig_def symdecl_def enter_environment_st_def process_macro_st_def arg_text_def
      py_index_def no_args_def braced_def strip_braces_def drop_first_char_def
      drop_last_char_def is_continuation_def char_len_def DEPENDENCY_PRODUCER_BY_MACRONAME_def
      DEPENDENCY_PRODUCERS_def DP_def symbol_of_macro_def record_symbol_in_def get_val_def
      get_archive_name_st_def get_archive_name_def get_manifest_def new_Repository_def
      example_store_def named_repo_def relative_to_def attach_dependency_def
      append_dependency_def path_name_def with_name_def valid_name_def as_posix_def Let_def)

theorem create_doc_info_st_again_witness:
  "create_doc_info_st (example_env [smodule_sig ''en'' ''set'' 0 90 [symdecl ''x'' 20 12]])
     example_refs 0 example_doc example_store
   = (Inr (example_doc\<lparr>doc_info := Some \<lparr>last_modified = 7, dependencies = [],
       modules = [ModuleInfo ''set''
         [\<lparr>archive = ''a'', dep_file = Some ''/MathHub/a/source/set.en.tex'',
           dep_module_name = Some ''set'', is_lib = False, is_use = False,
           target_no_tex = False, valid_range = Some (0, 90),
           intro_range = Some (0, 90)\<rparr>]
         [\<lparr>name = ''x'', verbalizations = [(''x'', 20, 32)], decl_def = Some (20, 32)\<rparr>] []]\<rparr>\<rparr>),
      example_store(0 := named_repo))
   \<and> archive_name_cache (example_store 0) = None
   \<and> archive_name_cache named_repo = Some ''a''
   \<and> fst (create_doc_info_st
          (example_env [smodule_sig ''en'' ''set'' 0 90 [symdecl ''x'' 20 12]])
          example_refs 0
          (example_doc\<lparr>doc_info := Some \<lparr>last_modified = 7, dependencies = [],
            modules = [ModuleInfo ''set''
              [\<lparr>archive = ''a'', dep_file = Some ''/MathHub/a/source/set.en.tex'',
                dep_module_name = Some ''set'', is_lib = False, is_use = False,
                target_no_tex = False, valid_range = Some (0, 90),
                intro_range = Some (0, 90)\<rparr>]
              [\<lparr>name = ''x'', verbalizations = [(''x'', 20, 32)],
                decl_def = Some (20, 32)\<rparr>] []]\<rparr>\<rparr>)
          (example_store(0 := named_repo)))
     = Inr (example_doc\<lparr>doc_info := Some \<lparr>last_modified = 7, dependencies = [],
       modules = [ModuleInfo ''set''
         [\<lparr>archive = ''a'', dep_file = Some ''/MathHub/a/source/set.en.tex'',
           dep_module_name = Some ''set'', is_lib = False, is_use = False,
           target_no_tex = False, valid_range = Some (0, 90),
           intro_range = Some (0, 90)\<rparr>]
         [\<lparr>name = ''x'', verbalizations = [(''x'', 20, 32)], decl_def = Some (20, 32)\<rparr>] []]\<rparr>\<rparr>)"
  using example_analysis_st create_doc_info_st_again [OF example_analysis_st]
  by (simp add: example_store_def named_repo_def new_Repository_def)

section \<open>A dependency macro without main argument\<close>

lemma process_skip:
  assumes "\<And>pr mi di. process_macro env mh arch self mn argd pos len pr mi di = Inr di"
  shows "process env mh arch self (before @ LatexMacroNode mn argd pos len # after) pr mi di
         = process env mh arch self (before @ after) pr mi di"
  using assms
  by (induction env mh arch self before pr mi di rule: process.induct)
     (simp_all split: sum.splits)

text \<open>
  The walk reads the name of the document's archive and the document's path relative to
  the archive before it calls \<^verbatim>\<open>produce\<close>. In a document that does not lie below its
  archive, or whose archive has no name, a dependency macro without main argument therefore
  ends the walk with \<^verbatim>\<open>ValueError\<close>, and the symbol declared after it is lost; without the
  macro the walk succeeds.
\<close>

theorem missing_main_arg_outside_archive:
  "DEPENDENCY_PRODUCER_BY_MACRONAME ''usemodule''
     = Some (DP ''usemodule'' True True False False True False)
   \<and> first_main_arg no_args = None
   \<and> process (example_env []) example_hub example_repo stray_doc
        [smodule ''set'' 0 90 [LatexMacroNode ''usemodule'' no_args 10 10, symdecl ''x'' 30 12]]
        (0, 100) None example_doc_info
     = Inl ValueError
   \<and> process (example_env []) example_hub example_repo stray_doc
        [smodule ''set'' 0 90 [symdecl ''x'' 30 12]] (0, 100) None example_doc_info
     = Inr \<lparr>last_modified = 5, dependencies = [],
          modules = [ModuleInfo ''set'' []
            [\<lparr>name = ''x'', verbalizations = [(''x'', 30, 42)], decl_def = Some (30, 42)\<rparr>] []]\<rparr>
   \<and> process (example_env []) example_hub unrooted_repo unrooted_doc
        [smodule ''set'' 0 90 [LatexMacroNode ''usemodule'' no_args 10 10, symdecl ''x'' 30 12]]
        (0, 100) None example_doc_info
     = Inl ValueError
   \<and> process (example_env []) example_hub unrooted_repo unrooted_doc
        [smodule ''set'' 0 90 [symdecl ''x'' 30 12]] (0, 100) None example_doc_info
     = Inr \<lparr>last_modified = 5, dependencies = [],
          modules = [ModuleInfo ''set'' []
            [\<lparr>name = ''x'', verbalizations = [(''x'', 30, 42)], decl_def = Some (30, 42)\<rparr>] []]\<rparr>"
  by (simp add: example_env_def example_doc_info_def stray_doc_def unrooted_repo_def
      unrooted_doc_def new_Repository_def smodule_def symdecl_def enter_environment_def
      process_macro_def arg_text_def py_index_def no_args_def braced_def strip_braces_def
      drop_first_char_def drop_last_char_def is_continuation_def char_len_def
      DEPENDENCY_PRODUCER_BY_MACRONAME_def DEPENDENCY_PRODUCERS_def DP_def symbol_of_macro_def
      record_symbol_in_def get_val_def example_repo_def archive_name_def get_archive_name_def
      get_rel_path_def relative_to_def append_module_def Let_def)

text \<open>
  C9, with its precondition. For a macro whose name is in the producer table and whose main argument
  is absent, \<^verbatim>\<open>produce\<close> returns \<^verbatim>\<open>None\<close>. When the document lies below its archive and
  the name of the archive can be computed, the walk over a node list that contains such an
  invocation gives the same outcome as the walk over the list without it, from any current
  module, range and \<^verbatim>\<open>DocInfo\<close>.
\<close>

theorem missing_main_arg_is_dropped:
  assumes "DEPENDENCY_PRODUCER_BY_MACRONAME mn = Some dp" and "first_main_arg argd = None"
    and "archive_name env arch = Inr a" and "get_rel_path arch self = Inr rel"
  shows "produce env dp argd pos len fa fs mh vr lang = Inr None
    \<and> process env mh arch self (before @ LatexMacroNode mn argd pos len # after) pr mi di
         = process env mh arch self (before @ after) pr mi di"
proof -
  have p: "\<And>fa fs vr lang. produce env dp argd pos len fa fs mh vr lang = Inr None"
    using assms(2) by (simp add: produce_def)
  have m: "process_macro env mh arch self mn argd pos len pr' mi' di' = Inr di'" for pr' mi' di'
    using assms p by (simp add: process_macro_def)
  show ?thesis using p process_skip [of env mh arch self mn argd pos len, OF m] by simp
qed

theorem missing_main_arg_is_dropped_witness:
  "DEPENDENCY_PRODUCER_BY_MACRONAME ''usemodule''
     = Some (DP ''usemodule'' True True False False True False)
   \<and> first_main_arg no_args = None
   \<and> archive_name (example_env []) example_repo = Inr ''a''
   \<and> get_rel_path example_repo example_doc = Inr ''source/set.de.tex''
   \<and> produce (example_env []) (DP ''usemodule'' True True False False True False) no_args 40 10
        ''a'' ''set.de.tex'' example_hub (0, 100) ''de'' = Inr None
   \<and> process (example_env []) example_hub example_repo example_doc
        ([smodule ''set'' 0 30 []] @ LatexMacroNode ''usemodule'' no_args 40 10
           # [symdecl ''x'' 60 12]) (0, 100) None example_doc_info
     = process (example_env []) example_hub example_repo example_doc
        ([smodule ''set'' 0 30 []] @ [symdecl ''x'' 60 12]) (0, 100) None example_doc_info"
proof -
  have h1: "DEPENDENCY_PRODUCER_BY_MACRONAME ''usemodule''
     = Some (DP ''usemodule'' True True False False True False)"
    by (simp add: DEPENDENCY_PRODUCER_BY_MACRONAME_def DEPENDENCY_PRODUCERS_def DP_def)
  have h2: "first_main_arg no_args = None"
    by (simp add: no_args_def)
  have h3: "archive_name (example_env []) example_repo = Inr ''a''"
    by (simp add: archive_name_def get_archive_name_def example_repo_def)
  have h4: "get_rel_path example_repo example_doc = Inr ''source/set.de.tex''"
    by (simp add: get_rel_path_def relative_to_def example_repo_def example_doc_def
        example_doc_path_def)
  show ?thesis
    using missing_main_arg_is_dropped [OF h1 h2 h3 h4,
        where before = "[smodule ''set'' 0 30 []]" and after = "[symdecl ''x'' 60 12]"
          and pos = 40 and len = 10 and mh = example_hub and pr = "(0, 100)" and mi = None
          and di = example_doc_info and fa = "''a''" and fs = "''set.de.tex''"
          and vr = "(0, 100)" and lang = "''de''"]
      h1 h2 h3 h4
    by simp
qed

section \<open>Evaluating the analysis on the example hub\<close>

lemmas walk_defs =
  create_doc_info_def example_env_def example_doc_def example_doc_path_def
  smodule_def smodule_sig_def symdecl_def symdef_def definiendum_def
  enter_environment_def process_macro_def arg_text_def py_index_def
  no_args_def braced_def strip_braces_def DEPENDENCY_PRODUCER_BY_MACRONAME_def
  DEPENDENCY_PRODUCERS_def DP_def symbol_of_macro_def record_symbol_in_def get_val_def
  example_repo_def example_hub_def archive_name_def get_archive_name_def
  attach_dependency_def append_dependency_def append_module_def
  path_name_def with_name_def valid_name_def as_posix_def get_rel_path_def relative_to_def
  lang_of_def drop_first_char_def drop_last_char_def is_continuation_def char_len_def Let_def

subsection \<open>Resolving the file of a dependency\<close>

text \<open>
  Every candidate path is handed to \<^verbatim>\<open>normalize_tex_file_ref\<close> together with the top
  directory and the language tag. The method has no parameter for the language tag, so the
  first candidate already ends the loop with \<^verbatim>\<open>TypeError\<close>.
\<close>

lemma resolve_path_options_raises:
  "resolve_path_options env arch top_dir lang (p # ps) = Inl TypeError"
  by simp

lemma produce_resolving_raises:
  assumes "first_main_arg argd = Some main_arg"
    and "get_archive mh (or_from (target_archive_of self argd) from_archive) = Some arch"
    and "references_module self \<or> \<not> dp_target_no_tex self"
  shows "produce env self argd pos len from_archive from_subdir mh vr lang = Inl TypeError"
  using assms
  by (auto simp: produce_def Let_def resolve_path_options_raises split: prod.splits)

text \<open>
  C1. The invocation \<^verbatim>\<open>\usemodule{foo}\<close> in a document of the archive \<^verbatim>\<open>a\<close>: the macro is
  in the producer table, the main argument is present, the archive \<^verbatim>\<open>a\<close> is in the hub,
  and no file of the archive matches. \<^verbatim>\<open>produce\<close> does not return a \<^verbatim>\<open>Dependency\<close>: it
  raises \<^verbatim>\<open>TypeError\<close>.
\<close>

theorem produce_usemodule_raises:
  "DEPENDENCY_PRODUCER_BY_MACRONAME ''usemodule''
     = Some (DP ''usemodule'' True True False False True False)
   \<and> first_main_arg (no_args\<lparr>first_main_arg := Some ''foo''\<rparr>) = Some ''foo''
   \<and> get_archive example_hub ''a'' = Some example_repo
   \<and> produce (example_env []) (DP ''usemodule'' True True False False True False)
        (no_args\<lparr>first_main_arg := Some ''foo''\<rparr>) 0 16 ''a'' ''set.de.tex'' example_hub
        (0, 100) ''de''
     = Inl TypeError"
  by (simp add: produce_def get_archive_def example_hub_def DP_def no_args_def
      target_archive_of_def or_from_def DEPENDENCY_PRODUCER_BY_MACRONAME_def
      DEPENDENCY_PRODUCERS_def)

subsection \<open>Refreshing the hub\<close>

text \<open>
  \<^verbatim>\<open>MathHub.update\<close> returns normally only if every archive it knew is found on disk again
  under its name: it never gets to drop an entry.
\<close>

lemma refresh_lookup_visits_all:
  "refresh_lookup env sn todo lk = Inr lk' \<Longrightarrow> (k, repo) \<in> set todo \<Longrightarrow>
   \<exists>n r. get_archive_name env repo = Inr (n, r) \<and> n \<in> set sn"
  by (induction env sn todo lk rule: refresh_lookup.induct)
     (auto split: sum.splits if_splits prod.splits)

lemma register_repos_result:
  "register_repos env ps sn lk = Inr (sn', lk') \<Longrightarrow>
   set lk \<subseteq> set lk'
   \<and> set sn' = set sn \<union> {n. \<exists>p r. p \<in> set ps \<and> get_archive_name env (new_Repository p) = Inr (n, r)}"
proof (induction ps arbitrary: sn lk)
  case Nil
  then show ?case by simp
next
  case (Cons p rest)
  from Cons.prems obtain n repo where
    g: "get_archive_name env (new_Repository p) = Inr (n, repo)"
    and rec: "register_repos env rest (n # sn)
                (if map_of lk n = None then lk @ [(n, repo)] else lk) = Inr (sn', lk')"
    by (auto split: sum.splits prod.splits)
  from Cons.IH [OF rec] have
    sub: "set (if map_of lk n = None then lk @ [(n, repo)] else lk) \<subseteq> set lk'"
    and names: "set sn' = set (n # sn) \<union>
      {n. \<exists>p r. p \<in> set rest \<and> get_archive_name env (new_Repository p) = Inr (n, r)}"
    by blast+
  from sub have "set lk \<subseteq> set lk'"
    by (auto split: if_splits)
  moreover from names g have "set sn' = set sn \<union>
      {n. \<exists>q r. q \<in> set (p # rest) \<and> get_archive_name env (new_Repository q) = Inr (n, r)}"
    by auto
  ultimately show ?case by blast
qed

lemma MathHub_update_returns_only_without_drop:
  assumes "MathHub_update env self = Inr self'" and "(k, repo) \<in> set (archive_lookup self)"
  shows "\<exists>n r p r'. get_archive_name env repo = Inr (n, r) \<and> p \<in> set (mathhub_repos env)
           \<and> get_archive_name env (new_Repository p) = Inr (n, r')"
proof -
  from assms(1) obtain sn lk lk' where
    reg: "register_repos env (mathhub_repos env) [] (archive_lookup self) = Inr (sn, lk)"
    and ref: "refresh_lookup env sn lk lk = Inr lk'"
    by (auto simp: MathHub_update_def split: sum.splits prod.splits)
  from register_repos_result [OF reg] assms(2) have "(k, repo) \<in> set lk"
    and sn: "set sn = {n. \<exists>p r. p \<in> set (mathhub_repos env) \<and> get_archive_name env (new_Repository p) = Inr (n, r)}"
    by auto
  from refresh_lookup_visits_all [OF ref this(1)] sn show ?thesis by blast
qed

text \<open>
  C2. The hub knows the archive \<^verbatim>\<open>a\<close>, and no repository root is found on disk any more.
  \<^verbatim>\<open>MathHub.update\<close> does not return: deleting the entry while the loop runs over the
  dictionary raises \<^verbatim>\<open>RuntimeError\<close>.
\<close>

theorem MathHub_update_drop_raises:
  "archive_lookup example_hub = [(''a'', example_repo)]
   \<and> mathhub_repos (example_env []) = []
   \<and> MathHub_update (example_env []) example_hub = Inl RuntimeError"
  by (simp add: MathHub_update_def example_env_def example_hub_def example_repo_def
      get_archive_name_def)

subsection \<open>Symbols\<close>

text \<open>
  Applied to the symbols of the current module, a hit keeps distinct names distinct, adds
  exactly one verbalization, and leaves the declaration spans of the symbols that exist
  untouched; a new \<^verbatim>\<open>Symbol\<close> gets a declaration span only from a declaring macro.
\<close>

lemma record_symbol_names:
  "map name (record_symbol mn s v pos len syms)
   = (if s \<in> set (map name syms) then map name syms else map name syms @ [s])"
  by (induction syms) auto

lemma record_symbol_one_per_name:
  "distinct (map name syms) \<Longrightarrow> distinct (map name (record_symbol mn s v pos len syms))"
  by (simp add: record_symbol_names)

lemma record_symbol_one_more_verbalization:
  "sum_list (map (\<lambda>x. length (verbalizations x)) (record_symbol mn s v pos len syms))
   = Suc (sum_list (map (\<lambda>x. length (verbalizations x)) syms))"
  by (induction syms) auto

lemma record_symbol_decl_def_kept:
  "map decl_def (take (length syms) (record_symbol mn s v pos len syms)) = map decl_def syms"
  by (induction syms) auto

lemma record_symbol_first_hit:
  "s \<notin> set (map name syms) \<Longrightarrow>
   record_symbol mn s v pos len syms
   = syms @ [\<lparr>name = s, verbalizations = [(v, pos, pos + len)],
       decl_def = (if mn = ''symdef'' \<or> mn = ''symdecl'' then Some (pos, pos + len) else None)\<rparr>]"
  by (induction syms) auto

text \<open>
  C3. In the module \<^verbatim>\<open>set\<close>, \<^verbatim>\<open>\definiendum{x}{the x}\<close> at 10..34 is followed by
  \<^verbatim>\<open>\symdef{x}\<close> at 40..52. One \<^verbatim>\<open>Symbol\<close> with two verbalizations is produced, and its
  declaration span is unset: it is not the span (40, 52) of the declaring occurrence.
\<close>

theorem symdef_after_definiendum_has_no_decl_def:
  "create_doc_info
     (example_env [smodule ''set'' 0 90 [definiendum ''x'' ''the x'' 10 24, symdef ''x'' 40 12]])
     example_hub example_repo example_doc
   = Inr (example_doc\<lparr>doc_info := Some \<lparr>last_modified = 7, dependencies = [],
       modules = [ModuleInfo ''set'' []
         [\<lparr>name = ''x'', verbalizations = [(''the x'', 10, 34), (''x'', 40, 52)],
           decl_def = None\<rparr>] []]\<rparr>\<rparr>)"
  by (simp add: walk_defs)

subsection \<open>The signature dependency\<close>

text \<open>
  C4. The document \<^verbatim>\<open>/MathHub/a/source/set.de.tex\<close> holds a module \<^verbatim>\<open>set\<close> with
  \<^verbatim>\<open>sig=en\<close>, and \<^verbatim>\<open>set.en.tex\<close> exists beside it. The dependency attached to the module
  names the sibling by its absolute path; its path within the \<^verbatim>\<open>source\<close> tree of the
  archive is \<^verbatim>\<open>set.en.tex\<close>.
\<close>

theorem sig_dependency_file_is_absolute:
  "create_doc_info (example_env [smodule_sig ''en'' ''set'' 0 90 []])
     example_hub example_repo example_doc
   = Inr (example_doc\<lparr>doc_info := Some \<lparr>last_modified = 7, dependencies = [],
       modules = [ModuleInfo ''set''
         [\<lparr>archive = ''a'', dep_file = Some ''/MathHub/a/source/set.en.tex'',
           dep_module_name = Some ''set'', is_lib = False, is_use = False,
           target_no_tex = False, valid_range = Some (0, 90),
           intro_range = Some (0, 90)\<rparr>] [] []]\<rparr>\<rparr>)
   \<and> relative_to [''MathHub'', ''a'', ''source'', ''set.en.tex'']
         (joinpath (repo_path example_repo) ''source'') = Inr ''set.en.tex''"
  by (simp add: walk_defs joinpath_def path_parts_def)

subsection \<open>Module nesting\<close>

text \<open>
  A document of the example hub that consists of nothing but a module with a submodule with
  a submodule, none of them with parameters: the three fully-qualified names, and the
  lookup of the innermost one in a tree of that shape.
\<close>

lemma strip_braces_braced: "strip_braces (CHR ''{'' # s @ ''}'') = s"
  by (simp add: strip_braces_def drop_first_char_def drop_last_char_def is_continuation_def
      char_len_def)

lemma module_nesting_alone:
  "create_doc_info
     (example_env [smodule a p1 l1 [smodule b p2 l2 [smodule c p3 l3 []]]])
     example_hub example_repo example_doc
   = Inr (example_doc\<lparr>doc_info := Some \<lparr>last_modified = 7, dependencies = [],
       modules = [ModuleInfo a [] []
         [ModuleInfo (a @ ''/'' @ b) [] []
           [ModuleInfo (a @ ''/'' @ b @ ''/'' @ c) [] [] []]]]\<rparr>\<rparr>)"
  by (simp add: create_doc_info_def example_env_def example_doc_def example_doc_path_def
      smodule_def enter_environment_def arg_text_def py_index_def no_args_def braced_def
      strip_braces_braced get_val_def append_module_def Let_def)

lemma get_module_innermost:
  "get_module \<lparr>last_modified = t, dependencies = ds,
       modules = [ModuleInfo a d1 s1
         [ModuleInfo (a @ ''/'' @ b) d2 s2
           [ModuleInfo (a @ ''/'' @ b @ ''/'' @ c) d3 s3 ms]]]\<rparr>
     (a @ ''/'' @ b @ ''/'' @ c)
   = Some (ModuleInfo (a @ ''/'' @ b @ ''/'' @ c) d3 s3 ms)"
  by (simp add: get_module_def DocInfo_iter_modules_def)

text \<open>
  C5. The document holds the module \<^verbatim>\<open>X\<close> and, after it, the module \<^verbatim>\<open>A\<close> containing
  \<^verbatim>\<open>B\<close> containing \<^verbatim>\<open>C\<close>. The walk keeps \<^verbatim>\<open>X\<close> as the current module for the rest of the
  list, so the three modules are named \<^verbatim>\<open>X/A\<close>, \<^verbatim>\<open>X/A/B\<close> and \<^verbatim>\<open>X/A/B/C\<close>, and the
  lookup of \<^verbatim>\<open>A/B/C\<close> finds nothing.
\<close>

theorem module_after_module_is_nested:
  "create_doc_info
     (example_env [smodule ''X'' 0 10 [],
        smodule ''A'' 10 90 [smodule ''B'' 20 70 [smodule ''C'' 30 50 []]]])
     example_hub example_repo example_doc
   = Inr (example_doc\<lparr>doc_info := Some \<lparr>last_modified = 7, dependencies = [],
       modules = [ModuleInfo ''X'' [] []
         [ModuleInfo ''X/A'' [] []
           [ModuleInfo ''X/A/B'' [] [] [ModuleInfo ''X/A/B/C'' [] [] []]]]]\<rparr>\<rparr>)
   \<and> get_module \<lparr>last_modified = 7, dependencies = [],
       modules = [ModuleInfo ''X'' [] []
         [ModuleInfo ''X/A'' [] []
           [ModuleInfo ''X/A/B'' [] [] [ModuleInfo ''X/A/B/C'' [] [] []]]]]\<rparr> ''A/B/C''
     = None"
  by (simp add: walk_defs get_module_def DocInfo_iter_modules_def)

end
